theory Spec2Isabelle
  imports Complex_Main "HOL-Library.AList"
begin

section \<open>Values of the Python program\<close>

text \<open>
  The service (\<^verbatim>\<open>src/backend/flight_data_service.py\<close>, \<^verbatim>\<open>src/backend/mcp_flight_server.py\<close>)
  handles decoded JSON: the upstream payload, its rows and the tool arguments are whatever
  \<^verbatim>\<open>json.loads\<close> produced. Python checks no type annotation at run time, so a field of
  the dataclass \<^verbatim>\<open>FlightData\<close> holds whatever value the row carried. Python's \<^verbatim>\<open>int\<close> is
  unbounded (\<open>int\<close>). A \<^verbatim>\<open>float\<close> is \<open>JReal r\<close> when it is finite, with \<open>r\<close> the number
  it denotes, \<open>JInf True\<close> or \<open>JInf False\<close> when it is plus or minus infinity (the decoder
  gives infinity for \<^verbatim>\<open>1e999\<close> and \<^verbatim>\<open>Infinity\<close>), and \<open>JNaN\<close> when it is not a number (the
  decoder accepts \<^verbatim>\<open>NaN\<close>). Wall-clock times (\<^verbatim>\<open>time.time()\<close>) are reals in seconds. A
  JSON object is the association list of the decoded \<^verbatim>\<open>dict\<close> (looked up from the front).
\<close>

datatype json =
    JNull
  | JBool bool
  | JInt int
  | JReal real
  | JInf bool
  | JNaN
  | JStr string
  | JList "json list"
  | JObj "(string \<times> json) list"

text \<open>The exceptions the modelled code can raise, as values.\<close>

datatype pyerror =
  TypeError | IndexError | KeyError | NameError | ValueError | AttributeError | OverflowError

text \<open>Truth value of an object, as \<^verbatim>\<open>if x:\<close>, \<^verbatim>\<open>not x\<close> and \<^verbatim>\<open>x or y\<close> test it.\<close>

fun truthy :: "json \<Rightarrow> bool" where
  "truthy JNull = False"
| "truthy (JBool b) = b"
| "truthy (JInt i) = (i \<noteq> 0)"
| "truthy (JReal r) = (r \<noteq> 0)"
| "truthy (JInf b) = True"
| "truthy JNaN = True"
| "truthy (JStr s) = (s \<noteq> [])"
| "truthy (JList xs) = (xs \<noteq> [])"
| "truthy (JObj kvs) = (kvs \<noteq> [])"

text \<open>
  The finite number a value stands for (\<^verbatim>\<open>bool\<close> is a subclass of \<^verbatim>\<open>int\<close>), if it
  stands for one.
\<close>

fun num_of :: "json \<Rightarrow> real option" where
  "num_of (JBool b) = Some (if b then 1 else 0)"
| "num_of (JInt i) = Some (of_int i)"
| "num_of (JReal r) = Some r"
| "num_of v = None"

text \<open>\<^verbatim>\<open>state[i]\<close> for a non-negative literal index \<open>i\<close>.\<close>

fun subscript :: "json \<Rightarrow> nat \<Rightarrow> pyerror + json" where
  "subscript (JList xs) i = (if i < length xs then Inr (xs ! i) else Inl IndexError)"
| "subscript (JStr s) i = (if i < length s then Inr (JStr [s ! i]) else Inl IndexError)"
| "subscript (JObj kvs) i = Inl KeyError"
| "subscript v i = Inl TypeError"

text \<open>\<^verbatim>\<open>d[key]\<close> for a string key.\<close>

fun getitem :: "json \<Rightarrow> string \<Rightarrow> pyerror + json" where
  "getitem (JObj kvs) k = (case map_of kvs k of Some v \<Rightarrow> Inr v | None \<Rightarrow> Inl KeyError)"
| "getitem v k = Inl TypeError"

text \<open>Substring test, \<^verbatim>\<open>'states' in data\<close> when \<^verbatim>\<open>data\<close> is a string.\<close>

fun is_prefix :: "string \<Rightarrow> string \<Rightarrow> bool" where
  "is_prefix [] ys = True"
| "is_prefix (x # xs) [] = False"
| "is_prefix (x # xs) (y # ys) = (x = y \<and> is_prefix xs ys)"

fun is_substring :: "string \<Rightarrow> string \<Rightarrow> bool" where
  "is_substring xs [] = (xs = [])"
| "is_substring xs (y # ys) = (is_prefix xs (y # ys) \<or> is_substring xs ys)"

text \<open>\<^verbatim>\<open>key in data\<close> for a string key: \<^verbatim>\<open>TypeError\<close> when \<^verbatim>\<open>data\<close> is no container.\<close>

fun contains :: "json \<Rightarrow> string \<Rightarrow> pyerror + bool" where
  "contains (JObj kvs) k = Inr (k \<in> set (map fst kvs))"
| "contains (JList xs) k = Inr (JStr k \<in> set xs)"
| "contains (JStr s) k = Inr (is_substring k s)"
| "contains v k = Inl TypeError"

text \<open>The values a \<^verbatim>\<open>for\<close> loop draws from an object.\<close>

fun iterate :: "json \<Rightarrow> pyerror + json list" where
  "iterate (JList xs) = Inr xs"
| "iterate (JStr s) = Inr (map (\<lambda>c. JStr [c]) s)"
| "iterate (JObj kvs) = Inr (map (\<lambda>kv. JStr (fst kv)) kvs)"
| "iterate v = Inl TypeError"

section \<open>Arithmetic of the Python runtime\<close>

text \<open>
  A \<^verbatim>\<open>float\<close> is an IEEE binary64 value: a finite number, an infinity or NaN. The result of
  an operation on finite floats is the exact result rounded to binary64, and is an infinity
  when that overflows. The rounding is a parameter of the model, \<open>rnd\<close>: it maps the exact
  real result to the float that stands for it, so everything proved holds for binary64
  rounding in particular.
\<close>

datatype pyfloat = Finite real | PosInf | NegInf | NaN

type_synonym rounding = "real \<Rightarrow> pyfloat"

fun f_neg :: "pyfloat \<Rightarrow> pyfloat" where
  "f_neg (Finite x) = Finite (- x)"
| "f_neg PosInf = NegInf"
| "f_neg NegInf = PosInf"
| "f_neg NaN = NaN"

fun f_add :: "rounding \<Rightarrow> pyfloat \<Rightarrow> pyfloat \<Rightarrow> pyfloat" where
  "f_add rnd NaN b = NaN"
| "f_add rnd a NaN = NaN"
| "f_add rnd PosInf NegInf = NaN"
| "f_add rnd NegInf PosInf = NaN"
| "f_add rnd PosInf b = PosInf"
| "f_add rnd NegInf b = NegInf"
| "f_add rnd a PosInf = PosInf"
| "f_add rnd a NegInf = NegInf"
| "f_add rnd (Finite x) (Finite y) = rnd (x + y)"

definition f_sub :: "rounding \<Rightarrow> pyfloat \<Rightarrow> pyfloat \<Rightarrow> pyfloat" where
  "f_sub rnd a b = f_add rnd a (f_neg b)"

fun json_of_float :: "pyfloat \<Rightarrow> json" where
  "json_of_float (Finite x) = JReal x"
| "json_of_float PosInf = JInf True"
| "json_of_float NegInf = JInf False"
| "json_of_float NaN = JNaN"

text \<open>The \<^verbatim>\<open>int\<close> a value is, if it is one (\<^verbatim>\<open>bool\<close> is a subclass of \<^verbatim>\<open>int\<close>).\<close>

fun int_of :: "json \<Rightarrow> int option" where
  "int_of (JBool b) = Some (if b then 1 else 0)"
| "int_of (JInt i) = Some i"
| "int_of v = None"

fun is_number :: "json \<Rightarrow> bool" where
  "is_number (JBool b) = True"
| "is_number (JInt i) = True"
| "is_number (JReal r) = True"
| "is_number (JInf b) = True"
| "is_number JNaN = True"
| "is_number v = False"

text \<open>
  A number as an operand of a float operation. An \<^verbatim>\<open>int\<close> is converted to the nearest
  float, and \<^verbatim>\<open>OverflowError\<close> is raised when it is too large for one.
\<close>

fun float_operand :: "rounding \<Rightarrow> json \<Rightarrow> pyerror + pyfloat" where
  "float_operand rnd (JBool b) = Inr (Finite (if b then 1 else 0))"
| "float_operand rnd (JInt i) =
     (case rnd (of_int i) of Finite x \<Rightarrow> Inr (Finite x) | other \<Rightarrow> Inl OverflowError)"
| "float_operand rnd (JReal r) = Inr (Finite r)"
| "float_operand rnd (JInf b) = Inr (if b then PosInf else NegInf)"
| "float_operand rnd JNaN = Inr NaN"
| "float_operand rnd v = Inl TypeError"

text \<open>
  Python's \<^verbatim>\<open>a - b\<close> and \<^verbatim>\<open>a + b\<close> on decoded JSON values. Two \<^verbatim>\<open>int\<close>s give the exact
  \<^verbatim>\<open>int\<close>; two numbers of which one is a \<^verbatim>\<open>float\<close> give a \<^verbatim>\<open>float\<close>; \<^verbatim>\<open>+\<close> also joins two
  strings or two lists; anything else is a \<^verbatim>\<open>TypeError\<close>.
\<close>

definition float_op ::
  "(pyfloat \<Rightarrow> pyfloat \<Rightarrow> pyfloat) \<Rightarrow> rounding \<Rightarrow> json \<Rightarrow> json \<Rightarrow> pyerror + json" where
  "float_op op rnd a b =
     (case float_operand rnd a of
        Inl e \<Rightarrow> Inl e
      | Inr x \<Rightarrow>
          (case float_operand rnd b of
             Inl e \<Rightarrow> Inl e
           | Inr y \<Rightarrow> Inr (json_of_float (op x y))))"

definition py_sub :: "rounding \<Rightarrow> json \<Rightarrow> json \<Rightarrow> pyerror + json" where
  "py_sub rnd a b =
     (case (int_of a, int_of b) of
        (Some i, Some j) \<Rightarrow> Inr (JInt (i - j))
      | other \<Rightarrow>
          if is_number a \<and> is_number b then float_op (f_sub rnd) rnd a b
          else Inl TypeError)"

definition py_add :: "rounding \<Rightarrow> json \<Rightarrow> json \<Rightarrow> pyerror + json" where
  "py_add rnd a b =
     (case (int_of a, int_of b) of
        (Some i, Some j) \<Rightarrow> Inr (JInt (i + j))
      | other \<Rightarrow>
          if is_number a \<and> is_number b then float_op (f_add rnd) rnd a b
          else
            (case (a, b) of
               (JStr x, JStr y) \<Rightarrow> Inr (JStr (x @ y))
             | (JList x, JList y) \<Rightarrow> Inr (JList (x @ y))
             | other \<Rightarrow> Inl TypeError))"

text \<open>
  \<^verbatim>\<open>v > n\<close> for an \<^verbatim>\<open>int\<close> \<open>n\<close>. Python compares a \<^verbatim>\<open>float\<close> with an \<^verbatim>\<open>int\<close> exactly;
  NaN is greater than nothing; a value that is no number raises \<^verbatim>\<open>TypeError\<close>.
\<close>

fun gt_int :: "json \<Rightarrow> int \<Rightarrow> pyerror + bool" where
  "gt_int (JBool b) n = Inr ((if b then 1 else 0) > n)"
| "gt_int (JInt i) n = Inr (i > n)"
| "gt_int (JReal x) n = Inr (x > of_int n)"
| "gt_int (JInf b) n = Inr b"
| "gt_int JNaN n = Inr False"
| "gt_int v n = Inl TypeError"

section \<open>Configuration (\<^verbatim>\<open>config.py\<close>)\<close>

record Config =
  REQUEST_TIMEOUT :: int
  MIN_REQUEST_INTERVAL :: int
  MAX_RETRIES :: int
  MAX_TRACKED_FLIGHTS :: int
  FLIGHT_EXPIRY_TIME :: int
  DEFAULT_REFRESH_INTERVAL :: int

definition default_config :: Config where
  "default_config =
     \<lparr>REQUEST_TIMEOUT = 30, MIN_REQUEST_INTERVAL = 10, MAX_RETRIES = 3,
      MAX_TRACKED_FLIGHTS = 1000, FLIGHT_EXPIRY_TIME = 300, DEFAULT_REFRESH_INTERVAL = 30\<rparr>"

section \<open>The rate-limited client (\<^verbatim>\<open>OpenSkyAPIClient\<close>)\<close>

text \<open>
  The world outside the process is explicit. An \<open>upstream\<close> says, for the \<open>n\<close>-th request
  the client object ever dispatches, how long \<^verbatim>\<open>session.get\<close> takes and what it gives: a
  response (status code and decoded body) or a \<^verbatim>\<open>requests.exceptions.RequestException\<close>
  (refused connection, timeout). The client's state holds the wall clock, the attribute
  \<^verbatim>\<open>last_request_time\<close>, the number of requests dispatched and a chronological trace of what
  the client did: each request with its dispatch time, each \<^verbatim>\<open>time.sleep\<close> with its start.
  The client copies \<^verbatim>\<open>MIN_REQUEST_INTERVAL\<close>, \<^verbatim>\<open>REQUEST_TIMEOUT\<close> and \<^verbatim>\<open>MAX_RETRIES\<close> from
  the configuration when it is built and never changes them; the model reads them from the
  configuration.
\<close>

datatype reply = Response int json | RequestException

type_synonym upstream = "nat \<Rightarrow> real \<times> reply"

datatype event = Request string "(string \<times> json) list" | Sleep real

record client_state =
  clock :: real
  last_request_time :: real
  n_sent :: nat
  trace :: "(real \<times> event) list"

definition new_client :: "real \<Rightarrow> client_state" where
  "new_client now = \<lparr>clock = now, last_request_time = 0, n_sent = 0, trace = []\<rparr>"

text \<open>\<^verbatim>\<open>time.sleep(d)\<close>: \<^verbatim>\<open>ValueError\<close> for a negative length, else the clock advances by \<open>d\<close>.\<close>

definition time_sleep :: "real \<Rightarrow> client_state \<Rightarrow> (pyerror + unit) \<times> client_state" where
  "time_sleep d s =
     (if d < 0 then (Inl ValueError, s)
      else (Inr (), s\<lparr>clock := clock s + d, trace := trace s @ [(clock s, Sleep d)]\<rparr>))"

text \<open>\<^verbatim>\<open>self.session.get(url, params=params, timeout=self.timeout)\<close>.\<close>

definition session_get ::
  "upstream \<Rightarrow> string \<Rightarrow> (string \<times> json) list \<Rightarrow> client_state \<Rightarrow> reply \<times> client_state" where
  "session_get up endpoint params s =
     (snd (up (n_sent s)),
      s\<lparr>clock := clock s + fst (up (n_sent s)),
        n_sent := Suc (n_sent s),
        trace := trace s @ [(clock s, Request endpoint params)]\<rparr>)"

text \<open>
  The body of \<^verbatim>\<open>for attempt in range(self.max_retries)\<close> (lines 82-105), over the attempts
  still to run; falling out of the loop returns \<^verbatim>\<open>None\<close>.
\<close>

fun attempts ::
  "Config \<Rightarrow> upstream \<Rightarrow> string \<Rightarrow> (string \<times> json) list \<Rightarrow> int list \<Rightarrow> client_state
     \<Rightarrow> (pyerror + json) \<times> client_state" where
  "attempts cfg up endpoint params [] s = (Inr JNull, s)"
| "attempts cfg up endpoint params (attempt # rest) s =
     (case session_get up endpoint params s of
        (Response status_code body, s1) \<Rightarrow>
          (let s2 = s1\<lparr>last_request_time := clock s1\<rparr> in
           if status_code = 200 then (Inr body, s2)
           else if status_code = 429 then
             (case time_sleep (of_int (MIN_REQUEST_INTERVAL cfg * (attempt + 1))) s2 of
                (Inl e, s3) \<Rightarrow> (Inl e, s3)
              | (Inr u, s3) \<Rightarrow> attempts cfg up endpoint params rest s3)
           else (Inr JNull, s2))
      | (RequestException, s1) \<Rightarrow>
          if attempt < MAX_RETRIES cfg - 1 then
            (case time_sleep (of_int (MIN_REQUEST_INTERVAL cfg * (attempt + 1))) s1 of
               (Inl e, s2) \<Rightarrow> (Inl e, s2)
             | (Inr u, s2) \<Rightarrow> attempts cfg up endpoint params rest s2)
          else (Inr JNull, s1))"

text \<open>\<^verbatim>\<open>range(n)\<close>.\<close>

definition py_range :: "int \<Rightarrow> int list" where
  "py_range n = map int [0..<nat n]"

text \<open>\<^verbatim>\<open>_make_request\<close>: the pacing wait (lines 76-80), then the attempts.\<close>

definition make_request ::
  "Config \<Rightarrow> upstream \<Rightarrow> string \<Rightarrow> (string \<times> json) list \<Rightarrow> client_state
     \<Rightarrow> (pyerror + json) \<times> client_state" where
  "make_request cfg up endpoint params s =
     (let current_time = clock s in
      case (if current_time - last_request_time s < of_int (MIN_REQUEST_INTERVAL cfg)
            then time_sleep (of_int (MIN_REQUEST_INTERVAL cfg) - (current_time - last_request_time s)) s
            else (Inr (), s)) of
        (Inl e, s1) \<Rightarrow> (Inl e, s1)
      | (Inr u, s1) \<Rightarrow> attempts cfg up endpoint params (py_range (MAX_RETRIES cfg)) s1)"


section \<open>Flight records and row parsing (\<^verbatim>\<open>FlightData\<close>, \<^verbatim>\<open>get_states\<close>)\<close>

text \<open>
  The dataclass: seventeen attributes. Its annotations (\<^verbatim>\<open>icao24: str\<close>,
  \<^verbatim>\<open>last_contact: int\<close>, ...) are not enforced by Python, so every attribute is a \<open>json\<close>.
\<close>

record FlightData =
  icao24 :: json
  callsign :: json
  origin_country :: json
  time_position :: json
  last_contact :: json
  longitude :: json
  latitude :: json
  baro_altitude :: json
  on_ground :: json
  velocity :: json
  true_track :: json
  vertical_rate :: json
  sensors :: json
  geo_altitude :: json
  squawk :: json
  spi :: json
  position_source :: json

text \<open>Evaluating a list of expressions from left to right: the first exception wins.\<close>

fun sequence :: "(pyerror + 'a) list \<Rightarrow> pyerror + 'a list" where
  "sequence [] = Inr []"
| "sequence (Inl e # rs) = Inl e"
| "sequence (Inr v # rs) = (case sequence rs of Inl e \<Rightarrow> Inl e | Inr vs \<Rightarrow> Inr (v # vs))"

text \<open>The constructor applied to seventeen values in positional order.\<close>

definition flight_of :: "json list \<Rightarrow> FlightData" where
  "flight_of v =
     \<lparr>icao24 = v ! 0, callsign = v ! 1, origin_country = v ! 2, time_position = v ! 3,
      last_contact = v ! 4, longitude = v ! 5, latitude = v ! 6, baro_altitude = v ! 7,
      on_ground = v ! 8, velocity = v ! 9, true_track = v ! 10, vertical_rate = v ! 11,
      sensors = v ! 12, geo_altitude = v ! 13, squawk = v ! 14, spi = v ! 15,
      position_source = v ! 16\<rparr>"

text \<open>\<^verbatim>\<open>FlightData(icao24=state[0], ..., position_source=state[16])\<close> (lines 128-146).\<close>

definition decode_row :: "json \<Rightarrow> pyerror + FlightData" where
  "decode_row state =
     (case sequence (map (subscript state) [0..<17]) of
        Inl e \<Rightarrow> Inl e
      | Inr v \<Rightarrow> Inr (flight_of v))"

text \<open>
  The loop over the rows (lines 126-150): \<^verbatim>\<open>IndexError\<close> and \<^verbatim>\<open>TypeError\<close> are caught and
  the row skipped; any other exception leaves the loop and the function.
\<close>

fun parse_rows :: "json list \<Rightarrow> FlightData list \<Rightarrow> pyerror + FlightData list" where
  "parse_rows [] flights = Inr flights"
| "parse_rows (state # rest) flights =
     (case decode_row state of
        Inr flight \<Rightarrow> parse_rows rest (flights @ [flight])
      | Inl e \<Rightarrow> if e = IndexError \<or> e = TypeError then parse_rows rest flights else Inl e)"

text \<open>Lines 122-152 of \<^verbatim>\<open>get_states\<close>, on what \<^verbatim>\<open>_make_request\<close> returned.\<close>

definition parse_states :: "json \<Rightarrow> pyerror + FlightData list" where
  "parse_states data =
     (if \<not> truthy data then Inr []
      else case contains data ''states'' of
        Inl e \<Rightarrow> Inl e
      | Inr False \<Rightarrow> Inr []
      | Inr True \<Rightarrow>
          (case getitem data ''states'' of
             Inl e \<Rightarrow> Inl e
           | Inr states \<Rightarrow>
               (case iterate states of
                  Inl e \<Rightarrow> Inl e
                | Inr rows \<Rightarrow> parse_rows rows [])))"

type_synonym bbox = "json \<times> json \<times> json \<times> json"

text \<open>The query parameters built in lines 110-118.\<close>

definition query_params :: "json \<Rightarrow> bbox option \<Rightarrow> (string \<times> json) list" where
  "query_params icao bbox =
     (if truthy icao then [(''icao24'', icao)] else []) @
     (case bbox of
        None \<Rightarrow> []
      | Some (b0, b1, b2, b3) \<Rightarrow>
          [(''lamin'', b0), (''lamax'', b1), (''lomin'', b2), (''lomax'', b3)])"

definition get_states ::
  "Config \<Rightarrow> upstream \<Rightarrow> json \<Rightarrow> bbox option \<Rightarrow> client_state
     \<Rightarrow> (pyerror + FlightData list) \<times> client_state" where
  "get_states cfg up icao bbox s =
     (case make_request cfg up ''states/all'' (query_params icao bbox) s of
        (Inl e, s1) \<Rightarrow> (Inl e, s1)
      | (Inr data, s1) \<Rightarrow> (parse_states data, s1))"

definition get_flights_by_area ::
  "Config \<Rightarrow> upstream \<Rightarrow> bbox \<Rightarrow> client_state \<Rightarrow> (pyerror + FlightData list) \<times> client_state" where
  "get_flights_by_area cfg up area s = get_states cfg up JNull (Some area) s"

definition get_flight_by_icao ::
  "Config \<Rightarrow> upstream \<Rightarrow> json \<Rightarrow> client_state \<Rightarrow> (pyerror + FlightData option) \<times> client_state" where
  "get_flight_by_icao cfg up icao s =
     (case get_states cfg up icao None s of
        (Inl e, s1) \<Rightarrow> (Inl e, s1)
      | (Inr flights, s1) \<Rightarrow> (Inr (case flights of [] \<Rightarrow> None | f # fs \<Rightarrow> Some f), s1))"

text \<open>
  \<^verbatim>\<open>to_dict\<close>. \<^verbatim>\<open>self.callsign.strip()\<close> is taken when the callsign is truthy and raises
  \<^verbatim>\<open>AttributeError\<close> when it is no string; \<^verbatim>\<open>str.strip\<close> itself, which removes the Unicode
  whitespace at both ends, is a parameter. \<^verbatim>\<open>last_update\<close> is the ISO rendering of
  \<^verbatim>\<open>datetime.now()\<close>; the model keeps the clock reading it renders.
\<close>

definition to_dict :: "(string \<Rightarrow> string) \<Rightarrow> real \<Rightarrow> FlightData \<Rightarrow> pyerror + json" where
  "to_dict strip now f =
     (case (if truthy (callsign f)
            then (case callsign f of JStr c \<Rightarrow> Inr (JStr (strip c)) | v \<Rightarrow> Inl AttributeError)
            else Inr JNull) of
        Inl e \<Rightarrow> Inl e
      | Inr cs \<Rightarrow>
          Inr (JObj
            [(''icao24'', icao24 f), (''callsign'', cs), (''origin_country'', origin_country f),
             (''time_position'', time_position f), (''last_contact'', last_contact f),
             (''longitude'', longitude f), (''latitude'', latitude f),
             (''baro_altitude'', baro_altitude f), (''on_ground'', on_ground f),
             (''velocity'', velocity f), (''true_track'', true_track f),
             (''vertical_rate'', vertical_rate f), (''geo_altitude'', geo_altitude f),
             (''squawk'', squawk f), (''spi'', spi f),
             (''position_source'', position_source f), (''last_update'', JReal now)]))"

section \<open>The tracker (\<^verbatim>\<open>FlightTracker\<close>)\<close>

text \<open>
  \<^verbatim>\<open>tracked_flights\<close> is a \<^verbatim>\<open>dict\<close>: an association list in insertion order whose keys are
  what Python hashes and compares. \<^verbatim>\<open>True\<close>, \<^verbatim>\<open>1\<close> and \<^verbatim>\<open>1.0\<close> are one key; every decoded
  NaN is the one object the decoder keeps for it, hence one key; a list or a dict is
  unhashable (\<^verbatim>\<open>TypeError\<close>).
\<close>

datatype pykey = KNone | KNum real | KInf bool | KNaN | KStr string

fun hash_key :: "json \<Rightarrow> pyerror + pykey" where
  "hash_key JNull = Inr KNone"
| "hash_key (JBool b) = Inr (KNum (if b then 1 else 0))"
| "hash_key (JInt i) = Inr (KNum (of_int i))"
| "hash_key (JReal r) = Inr (KNum r)"
| "hash_key (JInf b) = Inr (KInf b)"
| "hash_key JNaN = Inr KNaN"
| "hash_key (JStr s) = Inr (KStr s)"
| "hash_key (JList xs) = Inl TypeError"
| "hash_key (JObj kvs) = Inl TypeError"

type_synonym cache = "(pykey \<times> FlightData) list"

text \<open>
  A task object of the event loop, made by \<^verbatim>\<open>asyncio.create_task\<close> for the coroutine
  \<^verbatim>\<open>start_tracking(area, interval)\<close>; \<^verbatim>\<open>cancel()\<close> marks it.
\<close>

record task =
  task_area :: bbox
  task_interval :: json
  cancel_requested :: bool

text \<open>
  The tracker's attributes, and the event loop's tasks as a store: \<^verbatim>\<open>tracking_task\<close>
  refers to a task by its position in \<open>loop_tasks\<close>.
\<close>

record tracker_state =
  client :: client_state
  tracked_flights :: cache
  tracking_active :: bool
  tracking_task :: "nat option"
  loop_tasks :: "task list"

definition new_tracker :: "real \<Rightarrow> tracker_state" where
  "new_tracker now =
     \<lparr>client = new_client now, tracked_flights = [], tracking_active = False,
      tracking_task = None, loop_tasks = []\<rparr>"

text \<open>\<^verbatim>\<open>for flight in flights: self.tracked_flights[flight.icao24] = flight\<close> (lines 194-195).\<close>

fun upsert_all :: "FlightData list \<Rightarrow> cache \<Rightarrow> (pyerror + unit) \<times> cache" where
  "upsert_all [] d = (Inr (), d)"
| "upsert_all (flight # flights) d =
     (case hash_key (icao24 flight) of
        Inl e \<Rightarrow> (Inl e, d)
      | Inr k \<Rightarrow> upsert_all flights (AList.update k flight d))"

text \<open>
  The test of line 202, \<^verbatim>\<open>current_time - flight.last_contact > self.config.FLIGHT_EXPIRY_TIME\<close>,
  with \<^verbatim>\<open>current_time\<close> the float that \<^verbatim>\<open>time.time()\<close> returned.
\<close>

definition expiry_test :: "rounding \<Rightarrow> Config \<Rightarrow> real \<Rightarrow> FlightData \<Rightarrow> pyerror + bool" where
  "expiry_test rnd cfg current_time flight =
     (case py_sub rnd (JReal current_time) (last_contact flight) of
        Inl e \<Rightarrow> Inl e
      | Inr age \<Rightarrow> gt_int age (FLIGHT_EXPIRY_TIME cfg))"

text \<open>The expiry sweep: collecting the keys (lines 200-203), then deleting them (205-206).\<close>

fun collect_expired ::
  "rounding \<Rightarrow> Config \<Rightarrow> real \<Rightarrow> cache \<Rightarrow> pykey list \<Rightarrow> pyerror + pykey list" where
  "collect_expired rnd cfg current_time [] to_remove = Inr to_remove"
| "collect_expired rnd cfg current_time ((k, flight) # items) to_remove =
     (case expiry_test rnd cfg current_time flight of
        Inl e \<Rightarrow> Inl e
      | Inr expired \<Rightarrow>
          collect_expired rnd cfg current_time items
            (if expired then to_remove @ [k] else to_remove))"

fun delete_all :: "pykey list \<Rightarrow> cache \<Rightarrow> (pyerror + unit) \<times> cache" where
  "delete_all [] d = (Inr (), d)"
| "delete_all (k # ks) d =
     (if k \<in> set (map fst d) then delete_all ks (AList.delete k d) else (Inl KeyError, d))"

definition expiry_sweep ::
  "rounding \<Rightarrow> Config \<Rightarrow> real \<Rightarrow> cache \<Rightarrow> (pyerror + unit) \<times> cache" where
  "expiry_sweep rnd cfg current_time d =
     (case collect_expired rnd cfg current_time d [] of
        Inl e \<Rightarrow> (Inl e, d)
      | Inr to_remove \<Rightarrow> delete_all to_remove d)"

text \<open>
  The names bound at module level in \<^verbatim>\<open>flight_data_service.py\<close>: its imports (lines 1-8),
  \<^verbatim>\<open>logger\<close> and its three classes. \<^verbatim>\<open>asyncio\<close> is not among them and is no builtin, so
  evaluating \<^verbatim>\<open>asyncio.sleep(interval)\<close> in this module raises \<^verbatim>\<open>NameError\<close>. The other
  branch of \<open>asyncio_sleep\<close>, what the call would do with a finite delay were the name
  bound, is never reached.
\<close>

definition module_globals :: "string list" where
  "module_globals =
     [''requests'', ''json'', ''time'', ''Dict'', ''List'', ''Optional'', ''Any'', ''dataclass'',
      ''datetime'', ''timedelta'', ''logging'', ''Config'', ''logger'', ''FlightData'',
      ''OpenSkyAPIClient'', ''FlightTracker'']"

definition asyncio_sleep :: "json \<Rightarrow> tracker_state \<Rightarrow> (pyerror + unit) \<times> tracker_state" where
  "asyncio_sleep delay s =
     (if ''asyncio'' \<notin> set module_globals then (Inl NameError, s)
      else case num_of delay of
        None \<Rightarrow> (Inl TypeError, s)
      | Some d \<Rightarrow> (Inr (), s\<lparr>client := (client s)\<lparr>clock := clock (client s) + max d 0\<rparr>\<rparr>))"

text \<open>
  The \<^verbatim>\<open>try\<close> block of one iteration (lines 188-208): \<open>Inr True\<close> is \<^verbatim>\<open>break\<close>,
  \<open>Inr False\<close> the end of the block, \<open>Inl e\<close> an exception raised in it.
\<close>

definition try_block ::
  "rounding \<Rightarrow> Config \<Rightarrow> upstream \<Rightarrow> bbox option \<Rightarrow> json \<Rightarrow> tracker_state
     \<Rightarrow> (pyerror + bool) \<times> tracker_state" where
  "try_block rnd cfg up area interval s =
     (if int (length (tracked_flights s)) \<ge> MAX_TRACKED_FLIGHTS cfg then (Inr True, s)
      else
        case (case area of
                Some a \<Rightarrow> get_flights_by_area cfg up a (client s)
              | None \<Rightarrow> get_states cfg up JNull None (client s)) of
          (Inl e, c) \<Rightarrow> (Inl e, s\<lparr>client := c\<rparr>)
        | (Inr flights, c) \<Rightarrow>
            (case upsert_all flights (tracked_flights s) of
               (Inl e, d) \<Rightarrow> (Inl e, s\<lparr>client := c, tracked_flights := d\<rparr>)
             | (Inr u, d) \<Rightarrow>
                 (case expiry_sweep rnd cfg (clock c) d of
                    (Inl e, d') \<Rightarrow> (Inl e, s\<lparr>client := c, tracked_flights := d'\<rparr>)
                  | (Inr u', d') \<Rightarrow>
                      (case asyncio_sleep interval (s\<lparr>client := c, tracked_flights := d'\<rparr>) of
                         (Inl e, s') \<Rightarrow> (Inl e, s')
                       | (Inr u'', s') \<Rightarrow> (Inr False, s')))))"

text \<open>
  One iteration with its handler (lines 187-212): \<^verbatim>\<open>except Exception\<close> catches whatever the
  block raised, logs, and awaits \<^verbatim>\<open>asyncio.sleep(interval)\<close> itself; an exception raised
  there is not caught by anything.
\<close>

datatype control = Next | Break | Raise pyerror

definition iteration ::
  "rounding \<Rightarrow> Config \<Rightarrow> upstream \<Rightarrow> bbox option \<Rightarrow> json \<Rightarrow> tracker_state \<Rightarrow> control \<times> tracker_state" where
  "iteration rnd cfg up area interval s =
     (case try_block rnd cfg up area interval s of
        (Inr True, s1) \<Rightarrow> (Break, s1)
      | (Inr False, s1) \<Rightarrow> (Next, s1)
      | (Inl e, s1) \<Rightarrow>
          (case asyncio_sleep interval s1 of
             (Inl e', s2) \<Rightarrow> (Raise e', s2)
           | (Inr u, s2) \<Rightarrow> (Next, s2)))"

text \<open>
  \<^verbatim>\<open>while self.tracking_active:\<close> (line 186). The result is \<open>None\<close> when the loop never
  ends, \<open>Some (Inr (), s)\<close> when it ends and the coroutine returns, \<open>Some (Inl e, s)\<close> when
  an exception leaves the coroutine.
\<close>

partial_function (option) tracking_loop ::
  "rounding \<Rightarrow> Config \<Rightarrow> upstream \<Rightarrow> bbox option \<Rightarrow> json \<Rightarrow> tracker_state
     \<Rightarrow> ((pyerror + unit) \<times> tracker_state) option" where
  "tracking_loop rnd cfg up area interval s =
     (if tracking_active s then
        (case iteration rnd cfg up area interval s of
           (Break, s') \<Rightarrow> Some (Inr (), s')
         | (Raise e, s') \<Rightarrow> Some (Inl e, s')
         | (Next, s') \<Rightarrow> tracking_loop rnd cfg up area interval s')
      else Some (Inr (), s))"

definition start_tracking ::
  "rounding \<Rightarrow> Config \<Rightarrow> upstream \<Rightarrow> bbox option \<Rightarrow> json \<Rightarrow> tracker_state
     \<Rightarrow> ((pyerror + unit) \<times> tracker_state) option" where
  "start_tracking rnd cfg up area interval s =
     tracking_loop rnd cfg up area
       (if truthy interval then interval else JInt (DEFAULT_REFRESH_INTERVAL cfg))
       (s\<lparr>tracking_active := True\<rparr>)"

text \<open>\<^verbatim>\<open>FlightTracker.stop_tracking\<close> (lines 214-219).\<close>

definition tracker_stop_tracking :: "tracker_state \<Rightarrow> tracker_state" where
  "tracker_stop_tracking s =
     (let s1 = s\<lparr>tracking_active := False\<rparr> in
      case tracking_task s1 of
        None \<Rightarrow> s1
      | Some t \<Rightarrow>
          s1\<lparr>loop_tasks := (loop_tasks s1)[t := (loop_tasks s1 ! t)\<lparr>cancel_requested := True\<rparr>],
             tracking_task := None\<rparr>)"

text \<open>\<^verbatim>\<open>get_flight_info\<close> (lines 225-235): the read-through lookup.\<close>

definition get_flight_info ::
  "(string \<Rightarrow> string) \<Rightarrow> Config \<Rightarrow> upstream \<Rightarrow> json \<Rightarrow> tracker_state \<Rightarrow> (pyerror + json) \<times> tracker_state" where
  "get_flight_info strip cfg up icao s =
     (case hash_key icao of
        Inl e \<Rightarrow> (Inl e, s)
      | Inr k \<Rightarrow>
          (case map_of (tracked_flights s) k of
             Some f \<Rightarrow> (to_dict strip (clock (client s)) f, s)
           | None \<Rightarrow>
               (case get_flight_by_icao cfg up icao (client s) of
                  (Inl e, c) \<Rightarrow> (Inl e, s\<lparr>client := c\<rparr>)
                | (Inr None, c) \<Rightarrow> (Inr JNull, s\<lparr>client := c\<rparr>)
                | (Inr (Some flight), c) \<Rightarrow>
                    (to_dict strip (clock c) flight,
                     s\<lparr>client := c,
                       tracked_flights := AList.update k flight (tracked_flights s)\<rparr>))))"

section \<open>The protocol handlers of the tracking lifecycle (\<^verbatim>\<open>MCPServer\<close>)\<close>

text \<open>Statement after statement: the first exception ends the function.\<close>

definition and_then :: "pyerror + 'a \<Rightarrow> ('a \<Rightarrow> pyerror + 'b) \<Rightarrow> pyerror + 'b" where
  "and_then r f = (case r of Inl e \<Rightarrow> Inl e | Inr v \<Rightarrow> f v)"

definition status :: "string \<Rightarrow> json" where
  "status st = JObj [(''status'', JStr st)]"

text \<open>
  Lines 255-263 of \<^verbatim>\<open>start_continuous_tracking\<close>: the four arguments and the square
  around the centre; they run before the active flag is read.
\<close>

definition tracking_area :: "rounding \<Rightarrow> json \<Rightarrow> pyerror + bbox \<times> json" where
  "tracking_area rnd args =
     and_then (getitem args ''latitude'') (\<lambda>lat.
     and_then (getitem args ''longitude'') (\<lambda>lon.
     and_then (getitem args ''radius'') (\<lambda>radius.
     and_then (getitem args ''interval'') (\<lambda>interval.
     and_then (py_sub rnd lat radius) (\<lambda>min_lat.
     and_then (py_add rnd lat radius) (\<lambda>max_lat.
     and_then (py_sub rnd lon radius) (\<lambda>min_lon.
     and_then (py_add rnd lon radius) (\<lambda>max_lon.
       Inr ((min_lat, max_lat, min_lon, max_lon), interval)))))))))"

text \<open>
  \<^verbatim>\<open>MCPServer.start_continuous_tracking\<close> (lines 253-274). \<^verbatim>\<open>asyncio.create_task\<close> adds a
  task to the event loop; the coroutine's body (\<open>start_tracking\<close>) runs when the loop next
  schedules it, not inside this handler.
\<close>

definition start_continuous_tracking ::
  "rounding \<Rightarrow> json \<Rightarrow> tracker_state \<Rightarrow> (pyerror + json) \<times> tracker_state" where
  "start_continuous_tracking rnd args s =
     (case tracking_area rnd args of
        Inl e \<Rightarrow> (Inl e, s)
      | Inr ((min_lat, max_lat, min_lon, max_lon), interval) \<Rightarrow>
          if tracking_active s then (Inr (status ''already_running''), s)
          else
            (Inr (JObj [(''status'', JStr ''started''),
                        (''area'', JObj [(''min_lat'', min_lat), (''max_lat'', max_lat),
                                         (''min_lon'', min_lon), (''max_lon'', max_lon)])]),
             s\<lparr>loop_tasks := loop_tasks s @
                  [\<lparr>task_area = (min_lat, max_lat, min_lon, max_lon),
                    task_interval = interval, cancel_requested = False\<rparr>],
               tracking_task := Some (length (loop_tasks s))\<rparr>))"

text \<open>\<^verbatim>\<open>MCPServer.stop_tracking\<close> (lines 276-282).\<close>

definition stop_tracking :: "tracker_state \<Rightarrow> (pyerror + json) \<times> tracker_state" where
  "stop_tracking s =
     (if \<not> tracking_active s then (Inr (status ''not_running''), s)
      else (Inr (status ''stopped''), tracker_stop_tracking s))"

text \<open>
  The reply envelopes. A success envelope carries the request id and the handler's result
  (sent as the text \<^verbatim>\<open>json.dumps(result, indent=2)\<close> of one content block); an error
  envelope carries the id and the message, with the fixed code -32000.
\<close>

datatype message = Unknown_tool json | Exception_text pyerror

datatype envelope = Success json json | Error json message

text \<open>\<^verbatim>\<open>params.get(key, default)\<close> on the request's \<^verbatim>\<open>params\<close> dict.\<close>

definition dict_get :: "(string \<times> json) list \<Rightarrow> string \<Rightarrow> json \<Rightarrow> json" where
  "dict_get d k dflt = (case map_of d k of Some v \<Rightarrow> v | None \<Rightarrow> dflt)"

text \<open>
  \<^verbatim>\<open>call_tool\<close> (lines 147-183). The five query tools are not part of this development:
  \<open>query\<close> stands for their handlers, by tool name.
\<close>

definition query_tools :: "string list" where
  "query_tools =
     [''get_flights_by_area'', ''get_flight_by_icao'', ''get_flights_by_country'',
      ''get_all_flights'', ''search_flights'']"

definition call_tool ::
  "rounding \<Rightarrow> (string \<Rightarrow> json \<Rightarrow> tracker_state \<Rightarrow> (pyerror + json) \<times> tracker_state)
     \<Rightarrow> (string \<times> json) list \<Rightarrow> json \<Rightarrow> tracker_state \<Rightarrow> envelope \<times> tracker_state" where
  "call_tool rnd query params request_id s =
     (let tool_name = dict_get params ''name'' JNull;
          arguments = dict_get params ''arguments'' (JObj []);
          wrap = (\<lambda>r. case r of
                    (Inr result, s') \<Rightarrow> (Success request_id result, s')
                  | (Inl e, s') \<Rightarrow> (Error request_id (Exception_text e), s'))
      in case tool_name of
           JStr name \<Rightarrow>
             if name \<in> set query_tools then wrap (query name arguments s)
             else if name = ''start_continuous_tracking''
               then wrap (start_continuous_tracking rnd arguments s)
             else if name = ''stop_tracking'' then wrap (stop_tracking s)
             else (Error request_id (Unknown_tool tool_name), s)
         | _ \<Rightarrow> (Error request_id (Unknown_tool tool_name), s))"

section \<open>Predicates of the statements\<close>

text \<open>The dispatch times of the requests in a trace, oldest first.\<close>

fun dispatch_times :: "(real \<times> event) list \<Rightarrow> real list" where
  "dispatch_times [] = []"
| "dispatch_times ((t, Request endpoint params) # tr) = t # dispatch_times tr"
| "dispatch_times ((t, Sleep d) # tr) = dispatch_times tr"

text \<open>Consecutive times at least \<open>gap\<close> apart.\<close>

fun spaced :: "real \<Rightarrow> real list \<Rightarrow> bool" where
  "spaced gap (t # u # ts) = (gap \<le> u - t \<and> spaced gap (u # ts))"
| "spaced gap ts = True"

text \<open>
  The types \<^verbatim>\<open>FlightData\<close> annotates for its required attributes, as a row would have to
  meet them: \<^verbatim>\<open>icao24: str\<close>, \<^verbatim>\<open>origin_country: str\<close>, \<^verbatim>\<open>last_contact: int\<close>,
  \<^verbatim>\<open>on_ground: bool\<close>, \<^verbatim>\<open>spi: bool\<close>, \<^verbatim>\<open>position_source: int\<close>.
\<close>

fun is_str :: "json \<Rightarrow> bool" where
  "is_str (JStr s) = True"
| "is_str v = False"

fun is_int :: "json \<Rightarrow> bool" where
  "is_int (JInt i) = True"
| "is_int v = False"

fun is_bool :: "json \<Rightarrow> bool" where
  "is_bool (JBool b) = True"
| "is_bool v = False"

definition required_fields_ok :: "json list \<Rightarrow> bool" where
  "required_fields_ok row =
     (is_str (row ! 0) \<and> is_str (row ! 2) \<and> is_int (row ! 4) \<and> is_bool (row ! 8) \<and>
      is_bool (row ! 15) \<and> is_int (row ! 16))"

text \<open>A row that is an array, and its elements.\<close>

fun is_array :: "json \<Rightarrow> bool" where
  "is_array (JList xs) = True"
| "is_array v = False"

fun elements :: "json \<Rightarrow> json list" where
  "elements (JList xs) = xs"
| "elements v = []"

text \<open>The status code of a reply, if it is a response.\<close>

fun status_code :: "reply \<Rightarrow> int option" where
  "status_code (Response c body) = Some c"
| "status_code RequestException = None"

section \<open>Example inputs and further predicates\<close>

text \<open>
  The rounding used in the examples rounds nothing. It agrees with binary64 rounding on
  every number that binary64 represents, and the numbers of the examples (integers of small
  magnitude) and the results of their operations are such numbers.
\<close>

definition no_rounding :: rounding where
  "no_rounding = Finite"

text \<open>\<^verbatim>\<open>str.strip\<close> on text whose whitespace is ASCII, as in the examples.\<close>

definition is_space :: "char \<Rightarrow> bool" where
  "is_space c = (c \<in> set [CHR '' '', CHR 0x09, CHR 0x0A, CHR 0x0B, CHR 0x0C, CHR 0x0D,
                            CHR 0x1C, CHR 0x1D, CHR 0x1E, CHR 0x1F])"

definition ascii_strip :: "string \<Rightarrow> string" where
  "ascii_strip s = rev (dropWhile is_space (rev (dropWhile is_space s)))"

text \<open>An upstream that cannot be reached: every request fails after one second.\<close>

definition failing_upstream :: upstream where
  "failing_upstream = (\<lambda>n. (1, RequestException))"

text \<open>An upstream that answers every request with status 429 after one second.\<close>

definition busy_upstream :: upstream where
  "busy_upstream = (\<lambda>n. (1, Response 429 JNull))"

text \<open>An upstream that answers every request after one second with status 200 and one body.\<close>

definition serving :: "json \<Rightarrow> upstream" where
  "serving body = (\<lambda>n. (1, Response 200 body))"

definition states_payload :: "json list \<Rightarrow> json" where
  "states_payload rows = JObj [(''time'', JInt 1000), (''states'', JList rows)]"

text \<open>The row of the specification's scenario: seventeen fields of the annotated types.\<close>

definition sample_row :: "json list" where
  "sample_row =
     [JStr ''abc123'', JStr ''UAL123 '', JStr ''US'', JInt 1000, JInt 1000, JReal (- 80),
      JReal 35, JInt 10000, JBool False, JReal 250, JReal 90, JReal 0, JNull, JInt 10500,
      JNull, JBool False, JInt 0]"

text \<open>The same row with \<^verbatim>\<open>icao24\<close> missing (null) and \<^verbatim>\<open>last_contact\<close> a string.\<close>

definition bad_row :: "json list" where
  "bad_row =
     [JNull, JStr ''UAL123 '', JStr ''US'', JInt 1000, JStr ''1000'', JReal (- 80),
      JReal 35, JInt 10000, JBool False, JReal 250, JReal 90, JReal 0, JNull, JInt 10500,
      JNull, JBool False, JInt 0]"

text \<open>A row of three fields.\<close>

definition short_row :: "json list" where
  "short_row = [JStr ''abc124'', JStr ''DLH4'', JStr ''Germany'']"

text \<open>A batch element that is a JSON object instead of an array.\<close>

definition object_row :: json where
  "object_row = JObj [(''icao24'', JStr ''abc125''), (''callsign'', JStr ''AFR9'')]"

text \<open>A row last heard of at time 500.\<close>

definition old_row :: "json list" where
  "old_row =
     [JStr ''old001'', JStr ''BAW7   '', JStr ''United Kingdom'', JInt 500, JInt 500, JReal 0,
      JReal 51, JInt 9000, JBool False, JReal 230, JReal 270, JReal 0, JNull, JInt 9100,
      JNull, JBool False, JInt 0]"

text \<open>The key under which a flight is stored, when its \<^verbatim>\<open>icao24\<close> is hashable.\<close>

fun hashable :: "json \<Rightarrow> bool" where
  "hashable (JList xs) = False"
| "hashable (JObj kvs) = False"
| "hashable v = True"

definition the_key :: "FlightData \<Rightarrow> pykey" where
  "the_key f = (case hash_key (icao24 f) of Inr k \<Rightarrow> k | Inl e \<Rightarrow> KNone)"

text \<open>
  A batch of 1001 well-typed rows with pairwise different \<^verbatim>\<open>icao24\<close>, all last heard of
  at time 1000.
\<close>

definition crowd_row :: "nat \<Rightarrow> json list" where
  "crowd_row i =
     [JStr (replicate (Suc i) (CHR ''a'')), JStr ''UAL123 '', JStr ''US'', JInt 1000, JInt 1000,
      JReal (- 80), JReal 35, JInt 10000, JBool False, JReal 250, JReal 90, JReal 0, JNull,
      JInt 10500, JNull, JBool False, JInt 0]"

definition crowd :: "json list" where
  "crowd = map (\<lambda>i. JList (crowd_row i)) [0..<1001]"

text \<open>The cache that holds the 1001 flights of \<open>crowd\<close>.\<close>

definition crowd_cache :: cache where
  "crowd_cache =
     map (\<lambda>i. (KStr (replicate (Suc i) (CHR ''a'')), flight_of (crowd_row i))) [0..<1001]"

text \<open>The requests of the two lifecycle tools.\<close>

definition start_request :: "json \<Rightarrow> (string \<times> json) list" where
  "start_request args = [(''name'', JStr ''start_continuous_tracking''), (''arguments'', args)]"

definition stop_request :: "(string \<times> json) list" where
  "stop_request = [(''name'', JStr ''stop_tracking'')]"

text \<open>
  Arguments of a start request: a centre with float coordinates and an integer radius, and
  the same without the key \<^verbatim>\<open>interval\<close>.
\<close>

definition sample_args :: json where
  "sample_args =
     JObj [(''latitude'', JReal 35), (''longitude'', JReal (- 80)), (''radius'', JInt 2),
           (''interval'', JInt 30)]"

definition incomplete_args :: json where
  "incomplete_args =
     JObj [(''latitude'', JReal 35), (''longitude'', JReal (- 80)), (''radius'', JInt 2)]"

text \<open>No query tool is called in the examples.\<close>

definition no_query :: "string \<Rightarrow> json \<Rightarrow> tracker_state \<Rightarrow> (pyerror + json) \<times> tracker_state" where
  "no_query name args s = (Inr JNull, s)"

text \<open>A tracker whose cache holds the 1001 flights of \<open>crowd_cache\<close>.\<close>

definition full_tracker :: tracker_state where
  "full_tracker = (new_tracker 1000)\<lparr>tracked_flights := crowd_cache\<rparr>"

text \<open>
  The pacing invariant of a client: its requests so far are at least
  \<open>MIN_REQUEST_INTERVAL\<close> apart, the last of them was dispatched no later than
  \<^verbatim>\<open>last_request_time\<close>, and that time is not in the future.
\<close>

definition paced :: "Config \<Rightarrow> client_state \<Rightarrow> bool" where
  "paced cfg s =
     (spaced (of_int (MIN_REQUEST_INTERVAL cfg)) (dispatch_times (trace s)) \<and>
      (dispatch_times (trace s) \<noteq> [] \<longrightarrow> last (dispatch_times (trace s)) \<le> last_request_time s) \<and>
      last_request_time s \<le> clock s)"

section \<open>Properties\<close>

subsection \<open>Retries of the client\<close>

lemma attempts_all_429:
  assumes "\<forall>i < length as. status_code (snd (up (n_sent s + i))) = Some 429"
    and "0 \<le> MIN_REQUEST_INTERVAL cfg" and "\<forall>a \<in> set as. 0 \<le> a"
  shows "\<exists>s' new. attempts cfg up ep ps as s = (Inr JNull, s') \<and>
           n_sent s' = n_sent s + length as \<and> trace s' = trace s @ new \<and>
           map snd new = concat (map (\<lambda>a. [Request ep ps,
               Sleep (of_int (MIN_REQUEST_INTERVAL cfg * (a + 1)))]) as)"
  using assms
proof (induction as arbitrary: s)
  case Nil
  then show ?case by simp
next
  case (Cons a as)
  from Cons.prems(1) have "status_code (snd (up (n_sent s))) = Some 429" by force
  then obtain lat body where up0: "up (n_sent s) = (lat, Response 429 body)"
    by (cases "up (n_sent s)"; cases "snd (up (n_sent s))") auto
  define s2 where "s2 = s\<lparr>clock := clock s + lat, n_sent := Suc (n_sent s),
      trace := trace s @ [(clock s, Request ep ps)], last_request_time := clock s + lat\<rparr>"
  define d where "d = (of_int (MIN_REQUEST_INTERVAL cfg * (a + 1)) :: real)"
  have dpos: "0 \<le> d" using Cons.prems(2,3) by (simp add: d_def)
  define s3 where "s3 = s2\<lparr>clock := clock s2 + d, trace := trace s2 @ [(clock s2, Sleep d)]\<rparr>"
  have step: "attempts cfg up ep ps (a # as) s = attempts cfg up ep ps as s3"
    using dpos by (simp add: session_get_def up0 time_sleep_def s2_def s3_def d_def Let_def)
  have "\<forall>i<length as. status_code (snd (up (n_sent s3 + i))) = Some 429"
    using Cons.prems(1) by (auto simp: s3_def s2_def)
  from Cons.IH[OF this Cons.prems(2)] Cons.prems(3)
  obtain s' new where r: "attempts cfg up ep ps as s3 = (Inr JNull, s')"
     "n_sent s' = n_sent s3 + length as" "trace s' = trace s3 @ new"
     "map snd new = concat (map (\<lambda>a. [Request ep ps,
               Sleep (of_int (MIN_REQUEST_INTERVAL cfg * (a + 1)))]) as)"
    by auto
  show ?case
    apply (rule exI[of _ s'])
    apply (rule exI[of _ "[(clock s, Request ep ps), (clock s2, Sleep d)] @ new"])
    using r unfolding step by (simp add: s3_def s2_def d_def)
qed

text \<open>
  Claim C6. When the upstream answers 429 to every attempt of a call, \<open>_make_request\<close>
  dispatches exactly \<open>MAX_RETRIES\<close> requests, sleeps \<open>MIN_REQUEST_INTERVAL * k\<close> seconds
  after the \<open>k\<close>-th of them (\<open>k\<close> counted from 1: linear backoff), and returns \<^verbatim>\<open>None\<close>
  without raising. The new part of the trace is the pacing wait, if one was due, followed by
  request and sleep in alternation; the last attempt is followed by its sleep too, before
  the function returns.
\<close>

theorem make_request_all_429:
  assumes "\<forall>i < nat (MAX_RETRIES cfg). status_code (snd (up (n_sent s + i))) = Some 429"
    and "0 \<le> MIN_REQUEST_INTERVAL cfg"
  shows "\<exists>s' new. make_request cfg up ep ps s = (Inr JNull, s') \<and>
           n_sent s' = n_sent s + nat (MAX_RETRIES cfg) \<and>
           trace s' = trace s @
             (if clock s - last_request_time s < of_int (MIN_REQUEST_INTERVAL cfg)
              then [(clock s, Sleep (of_int (MIN_REQUEST_INTERVAL cfg) - (clock s - last_request_time s)))]
              else []) @ new \<and>
           map snd new = concat (map (\<lambda>k. [Request ep ps,
               Sleep (of_int (MIN_REQUEST_INTERVAL cfg * (int k + 1)))]) [0..<nat (MAX_RETRIES cfg)])"
proof -
  define s1 where "s1 = (if clock s - last_request_time s < of_int (MIN_REQUEST_INTERVAL cfg)
     then s\<lparr>clock := clock s + (of_int (MIN_REQUEST_INTERVAL cfg) - (clock s - last_request_time s)),
            trace := trace s @ [(clock s, Sleep (of_int (MIN_REQUEST_INTERVAL cfg) - (clock s - last_request_time s)))]\<rparr>
     else s)"
  have mr: "make_request cfg up ep ps s = attempts cfg up ep ps (py_range (MAX_RETRIES cfg)) s1"
    by (simp add: make_request_def time_sleep_def s1_def Let_def)
  have n1: "n_sent s1 = n_sent s" by (simp add: s1_def)
  have "\<forall>i < length (py_range (MAX_RETRIES cfg)). status_code (snd (up (n_sent s1 + i))) = Some 429"
    using assms(1) by (simp add: py_range_def n1)
  moreover have "\<forall>a \<in> set (py_range (MAX_RETRIES cfg)). 0 \<le> a"
    by (auto simp: py_range_def)
  ultimately obtain s' new where r:
    "attempts cfg up ep ps (py_range (MAX_RETRIES cfg)) s1 = (Inr JNull, s')"
    "n_sent s' = n_sent s1 + length (py_range (MAX_RETRIES cfg))" "trace s' = trace s1 @ new"
    "map snd new = concat (map (\<lambda>a. [Request ep ps,
               Sleep (of_int (MIN_REQUEST_INTERVAL cfg * (a + 1)))]) (py_range (MAX_RETRIES cfg)))"
    using attempts_all_429[OF _ assms(2), of "py_range (MAX_RETRIES cfg)" up s1 ep ps] by blast
  show ?thesis
    apply (rule exI[of _ s'])
    apply (rule exI[of _ new])
    using r unfolding mr by (simp add: s1_def py_range_def n1 comp_def)
qed

theorem make_request_all_429_witness:
  "\<exists>s'. make_request default_config busy_upstream ''states/all'' [] (new_client 1000)
           = (Inr JNull, s') \<and> n_sent s' = 3 \<and>
         map snd (trace s') =
           [Request ''states/all'' [], Sleep 10, Request ''states/all'' [], Sleep 20,
            Request ''states/all'' [], Sleep 30]"
  using make_request_all_429 [of default_config busy_upstream "new_client 1000"
      "''states/all''" "[]"]
  by (auto simp: default_config_def new_client_def busy_upstream_def upt_rec)

subsection \<open>Pacing of the client\<close>

text \<open>
  Claim C3. The claim asks that no two requests of one client are dispatched less than
  \<open>MIN_REQUEST_INTERVAL\<close> seconds apart, also when attempts fail with transport-level
  exceptions. \<^verbatim>\<open>last_request_time\<close> is assigned only after \<^verbatim>\<open>session.get\<close> has returned, so
  an attempt that raises leaves it untouched, and the pacing test of the next call reads a
  stale time. With the default configuration and an unreachable upstream, two calls in a
  row dispatch the last attempt of the first call at 1032 and the first attempt of the
  second call at 1033: one second apart, where the interval is ten.
\<close>

theorem pacing_lost_after_transport_failure:
  "dispatch_times (trace (snd (make_request default_config failing_upstream ''states/all'' []
      (snd (make_request default_config failing_upstream ''states/all'' [] (new_client 1000))))))
     = [1000, 1011, 1032, 1033, 1044, 1065] \<and>
   \<not> spaced (of_int (MIN_REQUEST_INTERVAL default_config)) [1000, 1011, 1032, 1033, 1044, 1065]"
  by (simp add: make_request_def default_config_def new_client_def failing_upstream_def
      py_range_def upt_rec session_get_def time_sleep_def Let_def)

subsection \<open>Parsing the upstream payload\<close>

lemma sequence_Inr: "sequence (map Inr ys) = Inr ys"
  by (induction ys) auto

lemma sequence_Inl: "sequence (map Inr ys @ Inl e # rest) = Inl e"
  by (induction ys) auto

lemma subscripts_in_range:
  "n \<le> length xs \<Longrightarrow> map (subscript (JList xs)) [0..<n] = map Inr (take n xs)"
  by (rule nth_equalityI) auto

lemma decode_row_long:
  assumes "17 \<le> length xs"
  shows "decode_row (JList xs) = Inr (flight_of xs)"
proof -
  have "sequence (map (subscript (JList xs)) [0..<17]) = Inr (take 17 xs)"
    using assms by (simp only: subscripts_in_range sequence_Inr)
  moreover have "flight_of (take 17 xs) = flight_of xs"
    by (simp add: flight_of_def)
  ultimately show ?thesis by (simp add: decode_row_def)
qed

lemma decode_row_short:
  assumes "length xs < 17"
  shows "decode_row (JList xs) = Inl IndexError"
proof -
  have "[0..<17] = [0..<length xs] @ length xs # [Suc (length xs)..<17]"
    using assms by (metis less_imp_le_nat upt_add_eq_append upt_conv_Cons le_add_diff_inverse zero_le)
  then have "map (subscript (JList xs)) [0..<17] =
      map Inr (take (length xs) xs) @ Inl IndexError # map (subscript (JList xs)) [Suc (length xs)..<17]"
    using subscripts_in_range[of "length xs" xs] by simp
  then show ?thesis by (simp only: decode_row_def sequence_Inl sum.case)
qed

lemma parse_rows_arrays:
  "\<forall>r \<in> set rows. is_array r \<Longrightarrow>
   parse_rows rows flights =
     Inr (flights @ map flight_of (filter (\<lambda>xs. 17 \<le> length xs) (map elements rows)))"
proof (induction rows arbitrary: flights)
  case Nil
  then show ?case by simp
next
  case (Cons r rows)
  then obtain xs where r: "r = JList xs" by (cases r) auto
  show ?case
  proof (cases "17 \<le> length xs")
    case True
    then show ?thesis using Cons by (simp add: r decode_row_long)
  next
    case False
    then show ?thesis using Cons by (simp add: r decode_row_short)
  qed
qed

lemma make_request_200:
  assumes "0 < MAX_RETRIES cfg" and "snd (up (n_sent s)) = Response 200 body"
  shows "fst (make_request cfg up ep ps s) = Inr body"
proof -
  obtain rest where rg: "py_range (MAX_RETRIES cfg) = 0 # rest"
    using assms(1) by (cases "nat (MAX_RETRIES cfg)") (auto simp: py_range_def upt_rec)
  show ?thesis using assms(2)
    by (simp add: make_request_def rg time_sleep_def session_get_def Let_def)
qed

lemma get_states_200:
  assumes "0 < MAX_RETRIES cfg" and "snd (up (n_sent s)) = Response 200 body"
  shows "fst (get_states cfg up icao bbox s) = parse_states body"
  using make_request_200[of cfg up s body "''states/all''" "query_params icao bbox"] assms
  by (auto simp: get_states_def split: prod.splits sum.splits)

lemma parse_states_of_rows:
  assumes "map_of kvs ''states'' = Some (JList rows)"
  shows "parse_states (JObj kvs) = parse_rows rows []"
proof -
  have "kvs \<noteq> []" using assms by auto
  moreover have "''states'' \<in> fst ` set kvs"
    using assms by (metis map_of_eq_None_iff option.distinct(1))
  ultimately show ?thesis using assms by (simp add: parse_states_def)
qed

text \<open>
  For a batch whose elements are all arrays, \<open>get_states\<close> returns the records of exactly
  the rows with at least seventeen fields, in the batch's order.
\<close>

lemma get_states_of_arrays:
  assumes "0 < MAX_RETRIES cfg"
    and "snd (up (n_sent s)) = Response 200 (JObj kvs)"
    and "map_of kvs ''states'' = Some (JList rows)"
    and "\<forall>r \<in> set rows. is_array r"
  shows "fst (get_states cfg up icao bbox s) =
           Inr (map flight_of (filter (\<lambda>xs. 17 \<le> length xs) (map elements rows)))"
  using get_states_200[of cfg up s "JObj kvs" icao bbox] parse_states_of_rows[of kvs rows]
    parse_rows_arrays[of rows "[]"] assms
  by simp

text \<open>
  Claim C9. The claim asks that in every batch with a row of fewer than seventeen fields
  that row is dropped and every other valid row is still returned. The row loop catches
  \<^verbatim>\<open>IndexError\<close> and \<^verbatim>\<open>TypeError\<close> only. In the batch of a short row, the valid row of the
  scenario and a JSON object, indexing the object with \<^verbatim>\<open>state[0]\<close> raises \<^verbatim>\<open>KeyError\<close>,
  which leaves \<open>get_states\<close>: the valid row is not returned. Without the object the same
  batch gives the record of the valid row, with the values of the row.
\<close>

theorem object_row_loses_the_batch:
  "fst (get_states default_config
          (serving (states_payload [JList short_row, JList sample_row, object_row]))
          JNull None (new_client 1000)) = Inl KeyError \<and>
   fst (get_states default_config
          (serving (states_payload [JList short_row, JList sample_row]))
          JNull None (new_client 1000)) = Inr [flight_of sample_row] \<and>
   icao24 (flight_of sample_row) = JStr ''abc123'' \<and>
   callsign (flight_of sample_row) = JStr ''UAL123 '' \<and>
   last_contact (flight_of sample_row) = JInt 1000 \<and>
   latitude (flight_of sample_row) = JReal 35"
proof -
  have a: "fst (get_states default_config (serving (states_payload rows)) JNull None
          (new_client 1000)) = parse_rows rows []" for rows
  proof -
    have "fst (get_states default_config (serving (states_payload rows)) JNull None
          (new_client 1000)) = parse_states (states_payload rows)"
      by (rule get_states_200) (simp_all add: default_config_def serving_def)
    moreover have "parse_states (states_payload rows) = parse_rows rows []"
      unfolding states_payload_def by (rule parse_states_of_rows) simp
    ultimately show ?thesis by simp
  qed
  have s: "decode_row (JList short_row) = Inl IndexError"
    by (rule decode_row_short) (simp add: short_row_def)
  have v: "decode_row (JList sample_row) = Inr (flight_of sample_row)"
    by (rule decode_row_long) (simp add: sample_row_def)
  have "sequence (map (subscript object_row) [0..<17]) = Inl KeyError"
    by (simp add: object_row_def upt_rec)
  then have o: "decode_row object_row = Inl KeyError"
    by (simp add: decode_row_def)
  have "parse_rows [JList short_row, JList sample_row, object_row] [] = Inl KeyError"
    "parse_rows [JList short_row, JList sample_row] [] = Inr [flight_of sample_row]"
    by (simp_all add: s v o)
  moreover have "icao24 (flight_of sample_row) = JStr ''abc123''"
    "callsign (flight_of sample_row) = JStr ''UAL123 ''"
    "last_contact (flight_of sample_row) = JInt 1000"
    "latitude (flight_of sample_row) = JReal 35"
    by (simp_all add: flight_of_def sample_row_def)
  ultimately show ?thesis by (simp add: a)
qed

text \<open>
  Claim C4, as stated, fails: the row \<open>bad_row\<close> has seventeen fields, its \<^verbatim>\<open>icao24\<close> is
  null and its \<^verbatim>\<open>last_contact\<close> is a string, and \<open>get_states\<close> returns a record for it
  that carries the null.
\<close>

theorem mistyped_row_is_kept:
  "length bad_row = 17 \<and> \<not> required_fields_ok bad_row \<and>
   fst (get_states default_config (serving (states_payload [JList bad_row])) JNull None
          (new_client 1000)) = Inr [flight_of bad_row] \<and>
   icao24 (flight_of bad_row) = JNull \<and> last_contact (flight_of bad_row) = JStr ''1000''"
proof -
  have "fst (get_states default_config (serving (states_payload [JList bad_row])) JNull None
          (new_client 1000)) = parse_states (states_payload [JList bad_row])"
    by (rule get_states_200) (simp_all add: default_config_def serving_def)
  moreover have "parse_states (states_payload [JList bad_row]) = parse_rows [JList bad_row] []"
    unfolding states_payload_def by (rule parse_states_of_rows) simp
  moreover have "parse_rows [JList bad_row] [] = Inr [flight_of bad_row]"
    by (simp add: decode_row_long bad_row_def)
  moreover have "length bad_row = 17" "\<not> required_fields_ok bad_row"
    "icao24 (flight_of bad_row) = JNull" "last_contact (flight_of bad_row) = JStr ''1000''"
    by (simp_all add: bad_row_def required_fields_ok_def flight_of_def)
  ultimately show ?thesis by simp
qed

text \<open>
  Claim C4, amended. No field is checked against its annotated type: every row that is an
  array of seventeen fields yields the record holding the row's values as they came,
  required fields included, and the loop goes on with that record appended. A row is
  dropped only when indexing it fails, as for an array of fewer than seventeen fields.
\<close>

theorem row_of_seventeen_is_kept:
  "(length row = 17 \<longrightarrow>
      decode_row (JList row) = Inr (flight_of row) \<and>
      parse_rows (JList row # rest) flights = parse_rows rest (flights @ [flight_of row]) \<and>
      icao24 (flight_of row) = row ! 0 \<and> origin_country (flight_of row) = row ! 2 \<and>
      last_contact (flight_of row) = row ! 4 \<and> on_ground (flight_of row) = row ! 8 \<and>
      spi (flight_of row) = row ! 15 \<and> position_source (flight_of row) = row ! 16) \<and>
   (length row < 17 \<longrightarrow>
      decode_row (JList row) = Inl IndexError \<and>
      parse_rows (JList row # rest) flights = parse_rows rest flights)"
  by (simp add: decode_row_long decode_row_short flight_of_def)

theorem row_of_seventeen_is_kept_witness:
  "decode_row (JList bad_row) = Inr (flight_of bad_row) \<and>
   parse_rows [JList bad_row] [] = Inr [flight_of bad_row] \<and>
   icao24 (flight_of bad_row) = JNull \<and>
   decode_row (JList short_row) = Inl IndexError \<and>
   parse_rows [JList short_row] [] = Inr []"
  using row_of_seventeen_is_kept [of bad_row "[]" "[]"]
    row_of_seventeen_is_kept [of short_row "[]" "[]"]
  by (simp add: bad_row_def short_row_def)

text \<open>
  Claim C5. A payload that is absent, falsy, or a dict without the key \<^verbatim>\<open>states\<close> gives the
  empty list. The value under \<^verbatim>\<open>states\<close> is iterated without a test, though: for the
  payload \<^verbatim>\<open>{"states": null}\<close> the \<^verbatim>\<open>for\<close> statement raises \<^verbatim>\<open>TypeError\<close> outside the
  \<^verbatim>\<open>try\<close> of the row loop, and the exception leaves \<open>get_states\<close>.
\<close>

theorem null_states_raises:
  "fst (get_states default_config (serving (JObj [(''states'', JNull)])) JNull None
          (new_client 1000)) = Inl TypeError"
proof -
  have "fst (get_states default_config (serving (JObj [(''states'', JNull)])) JNull None
          (new_client 1000)) = parse_states (JObj [(''states'', JNull)])"
    by (rule get_states_200) (simp_all add: default_config_def serving_def)
  then show ?thesis by (simp add: parse_states_def)
qed

lemma parse_states_absent:
  "\<not> truthy data \<Longrightarrow> parse_states data = Inr []"
  "''states'' \<notin> fst ` set kvs \<Longrightarrow> parse_states (JObj kvs) = Inr []"
  by (simp_all add: parse_states_def)

subsection \<open>The expiry sweep\<close>

lemma collect_expired_completes:
  "\<forall>(k, f) \<in> set d. \<exists>b. expiry_test rnd cfg t f = Inr b \<Longrightarrow>
   collect_expired rnd cfg t d acc =
     Inr (acc @ map fst (filter (\<lambda>(k, f). expiry_test rnd cfg t f = Inr True) d))"
  by (induction d arbitrary: acc) auto

lemma collect_expired_raises:
  "\<exists>(k, f) \<in> set d. \<exists>e. expiry_test rnd cfg t f = Inl e \<Longrightarrow>
   \<exists>(k, f) \<in> set d. \<exists>e. expiry_test rnd cfg t f = Inl e \<and>
      collect_expired rnd cfg t d acc = Inl e"
proof (induction d arbitrary: acc)
  case Nil
  then show ?case by simp
next
  case (Cons p d)
  obtain k f where p: "p = (k, f)" by (cases p)
  show ?case
  proof (cases "expiry_test rnd cfg t f")
    case (Inl e)
    then show ?thesis by (auto simp: p)
  next
    case (Inr b)
    with Cons.prems have "\<exists>(k, f) \<in> set d. \<exists>e. expiry_test rnd cfg t f = Inl e"
      by (auto simp: p)
    from Cons.IH[OF this, of "if b then acc @ [k] else acc"]
    show ?thesis using Inr by (auto simp: p)
  qed
qed

lemma delete_all_present:
  "set ks \<subseteq> fst ` set d \<Longrightarrow> distinct ks \<Longrightarrow>
   delete_all ks d = (Inr (), filter (\<lambda>(k, f). k \<notin> set ks) d)"
proof (induction ks arbitrary: d)
  case Nil
  then show ?case by simp
next
  case (Cons k ks)
  have "set ks \<subseteq> fst ` set (AList.delete k d)"
  proof
    fix x assume x: "x \<in> set ks"
    with Cons.prems have "x \<noteq> k" "x \<in> fst ` set d" by auto
    then show "x \<in> fst ` set (AList.delete k d)"
      by (force simp: AList.delete_eq)
  qed
  from Cons.IH[OF this] Cons.prems
  show ?case by (auto simp: AList.delete_eq intro!: filter_cong)
qed

lemma expiry_sweep_completes:
  assumes "distinct (map fst d)"
    and "\<forall>(k, f) \<in> set d. \<exists>b. expiry_test rnd cfg now f = Inr b"
  shows "expiry_sweep rnd cfg now d =
           (Inr (), filter (\<lambda>(k, f). expiry_test rnd cfg now f \<noteq> Inr True) d)"
proof -
  let ?ks = "map fst (filter (\<lambda>(k, f). expiry_test rnd cfg now f = Inr True) d)"
  have c: "collect_expired rnd cfg now d [] = Inr ?ks"
    using collect_expired_completes[OF assms(2), of "[]"] by simp
  have "distinct ?ks" using assms(1) by (rule distinct_map_filter)
  moreover have "set ?ks \<subseteq> fst ` set d" by auto
  ultimately have "delete_all ?ks d = (Inr (), filter (\<lambda>(k, f). k \<notin> set ?ks) d)"
    by (rule delete_all_present[rotated])
  moreover have "filter (\<lambda>(k, f). k \<notin> set ?ks) d =
      filter (\<lambda>(k, f). expiry_test rnd cfg now f \<noteq> Inr True) d"
  proof (rule filter_cong[OF refl], clarify)
    fix k f assume kf: "(k, f) \<in> set d"
    have "k \<in> set ?ks \<longleftrightarrow> expiry_test rnd cfg now f = Inr True"
    proof
      assume "k \<in> set ?ks"
      then obtain f' where "(k, f') \<in> set d" "expiry_test rnd cfg now f' = Inr True" by auto
      with kf assms(1) show "expiry_test rnd cfg now f = Inr True"
        by (metis eq_key_imp_eq_value)
    next
      assume "expiry_test rnd cfg now f = Inr True"
      with kf show "k \<in> set ?ks" by force
    qed
    then show "(k \<notin> set ?ks) = (expiry_test rnd cfg now f \<noteq> Inr True)" by simp
  qed
  ultimately show ?thesis by (simp add: expiry_sweep_def c)
qed

lemma expiry_sweep_aborts:
  assumes "\<exists>(k, f) \<in> set d. \<exists>e. expiry_test rnd cfg now f = Inl e"
  shows "\<exists>(k, f) \<in> set d. \<exists>e. expiry_test rnd cfg now f = Inl e \<and>
           expiry_sweep rnd cfg now d = (Inl e, d)"
proof -
  obtain k f e where "(k, f) \<in> set d" "expiry_test rnd cfg now f = Inl e"
    "collect_expired rnd cfg now d [] = Inl e"
    using collect_expired_raises[OF assms, of "[]"] by auto
  then show ?thesis by (auto simp: expiry_sweep_def intro!: bexI[of _ "(k, f)"])
qed

text \<open>What the test of line 202 gives, by the kind of \<^verbatim>\<open>last_contact\<close>.\<close>

lemma expiry_test_not_number:
  "\<not> is_number (last_contact g) \<Longrightarrow> expiry_test rnd cfg now g = Inl TypeError"
  by (simp add: expiry_test_def py_sub_def)

lemma expiry_test_int_overflow:
  "last_contact g = JInt i \<Longrightarrow> \<forall>x. rnd (of_int i) \<noteq> Finite x \<Longrightarrow>
   expiry_test rnd cfg now g = Inl OverflowError"
  by (cases "rnd (of_int i)") (simp_all add: expiry_test_def py_sub_def float_op_def)

lemma expiry_test_int_exact:
  "last_contact g = JInt i \<Longrightarrow> rnd (of_int i) = Finite (of_int i) \<Longrightarrow>
   rnd (now - of_int i) = Finite (now - of_int i) \<Longrightarrow>
   expiry_test rnd cfg now g = Inr (now - of_int i > of_int (FLIGHT_EXPIRY_TIME cfg))"
  by (simp add: expiry_test_def py_sub_def float_op_def f_sub_def)

lemma expiry_test_nan:
  "last_contact g = JNaN \<Longrightarrow> expiry_test rnd cfg now g = Inr False"
  by (simp add: expiry_test_def py_sub_def float_op_def f_sub_def)

text \<open>
  Claim C7, amended. On every cache (a dict: no key twice) and at every sweep time \<open>now\<close>,
  the sweep completes exactly when the test of line 202,
  \<^verbatim>\<open>now - last_contact > FLIGHT_EXPIRY_TIME\<close> as Python evaluates it, raises for no entry.
  After a completed sweep every entry left is one for which the test was false, every entry
  removed one for which it was true, and none was added. When the test raises for an entry
  the sweep removes nothing and the exception leaves it. The test raises \<^verbatim>\<open>TypeError\<close> when
  \<^verbatim>\<open>last_contact\<close> is no number and \<^verbatim>\<open>OverflowError\<close> when it is an \<^verbatim>\<open>int\<close> too large for a
  float; it is false when \<^verbatim>\<open>last_contact\<close> is NaN; and when \<^verbatim>\<open>last_contact\<close> is an \<^verbatim>\<open>int\<close>
  and neither its conversion nor the subtraction rounds, it is true exactly when
  \<open>now - last_contact > FLIGHT_EXPIRY_TIME\<close>.
\<close>

theorem sweep_removes_what_tests_expired:
  assumes "distinct (map fst d)"
  shows "(fst (expiry_sweep rnd cfg now d) = Inr () \<longleftrightarrow>
            (\<forall>(k, f) \<in> set d. \<exists>b. expiry_test rnd cfg now f = Inr b)) \<and>
         (fst (expiry_sweep rnd cfg now d) = Inr () \<longrightarrow>
            (\<forall>(k, f) \<in> set (snd (expiry_sweep rnd cfg now d)).
                expiry_test rnd cfg now f = Inr False) \<and>
            (\<forall>(k, f) \<in> set d. (k, f) \<notin> set (snd (expiry_sweep rnd cfg now d)) \<longrightarrow>
                expiry_test rnd cfg now f = Inr True) \<and>
            set (snd (expiry_sweep rnd cfg now d)) \<subseteq> set d) \<and>
         (fst (expiry_sweep rnd cfg now d) \<noteq> Inr () \<longrightarrow>
            snd (expiry_sweep rnd cfg now d) = d \<and>
            (\<exists>(k, f) \<in> set d. \<exists>e. expiry_test rnd cfg now f = Inl e \<and>
                fst (expiry_sweep rnd cfg now d) = Inl e)) \<and>
         (\<not> is_number (last_contact g) \<longrightarrow> expiry_test rnd cfg now g = Inl TypeError) \<and>
         (last_contact g = JInt i \<and> (\<forall>x. rnd (of_int i) \<noteq> Finite x) \<longrightarrow>
            expiry_test rnd cfg now g = Inl OverflowError) \<and>
         (last_contact g = JNaN \<longrightarrow> expiry_test rnd cfg now g = Inr False) \<and>
         (last_contact g = JInt i \<and> rnd (of_int i) = Finite (of_int i) \<and>
          rnd (now - of_int i) = Finite (now - of_int i) \<longrightarrow>
            expiry_test rnd cfg now g = Inr (now - of_int i > of_int (FLIGHT_EXPIRY_TIME cfg)))"
proof -
  let ?ok = "\<forall>(k, f) \<in> set d. \<exists>b. expiry_test rnd cfg now f = Inr b"
  let ?r = "expiry_sweep rnd cfg now d"
  have completed: "?r = (Inr (), filter (\<lambda>(k, f). expiry_test rnd cfg now f \<noteq> Inr True) d)" if "?ok"
    using assms that by (rule expiry_sweep_completes)
  have aborted: "\<exists>(k, f) \<in> set d. \<exists>e. expiry_test rnd cfg now f = Inl e \<and> ?r = (Inl e, d)"
    if "\<not> ?ok"
  proof -
    from that obtain k f where kf: "(k, f) \<in> set d" "\<forall>b. expiry_test rnd cfg now f \<noteq> Inr b"
      by auto
    then obtain e where "expiry_test rnd cfg now f = Inl e"
      by (cases "expiry_test rnd cfg now f") auto
    with kf(1) have "\<exists>(k, f) \<in> set d. \<exists>e. expiry_test rnd cfg now f = Inl e"
      by (intro bexI[of _ "(k, f)"]) auto
    then show ?thesis by (rule expiry_sweep_aborts)
  qed
  have a: "fst ?r = Inr () \<longleftrightarrow> ?ok"
  proof
    assume r: "fst ?r = Inr ()"
    show "?ok"
    proof (rule ccontr)
      assume "\<not> ?ok"
      from aborted[OF this] obtain e where "?r = (Inl e, d)" by auto
      with r show False by simp
    qed
  next
    assume "?ok"
    from completed[OF this] show "fst ?r = Inr ()" by simp
  qed
  have b: "fst ?r = Inr () \<longrightarrow>
            (\<forall>(k, f) \<in> set (snd ?r). expiry_test rnd cfg now f = Inr False) \<and>
            (\<forall>(k, f) \<in> set d. (k, f) \<notin> set (snd ?r) \<longrightarrow> expiry_test rnd cfg now f = Inr True) \<and>
            set (snd ?r) \<subseteq> set d"
  proof
    assume "fst ?r = Inr ()"
    with a have ok: "?ok" by simp
    have s: "snd ?r = filter (\<lambda>(k, f). expiry_test rnd cfg now f \<noteq> Inr True) d"
      using completed[OF ok] by simp
    have "expiry_test rnd cfg now f = Inr False"
      if "(k, f) \<in> set d" "expiry_test rnd cfg now f \<noteq> Inr True" for k f
    proof -
      from ok that(1) obtain b where "expiry_test rnd cfg now f = Inr b" by auto
      with that(2) show ?thesis by (cases b) auto
    qed
    then show "(\<forall>(k, f) \<in> set (snd ?r). expiry_test rnd cfg now f = Inr False) \<and>
            (\<forall>(k, f) \<in> set d. (k, f) \<notin> set (snd ?r) \<longrightarrow> expiry_test rnd cfg now f = Inr True) \<and>
            set (snd ?r) \<subseteq> set d"
      unfolding s by auto
  qed
  have c: "fst ?r \<noteq> Inr () \<longrightarrow> snd ?r = d \<and>
            (\<exists>(k, f) \<in> set d. \<exists>e. expiry_test rnd cfg now f = Inl e \<and> fst ?r = Inl e)"
  proof
    assume "fst ?r \<noteq> Inr ()"
    with a have "\<not> ?ok" by simp
    from aborted[OF this] obtain k f e where kf: "(k, f) \<in> set d"
      "expiry_test rnd cfg now f = Inl e" "?r = (Inl e, d)" by auto
    have "\<exists>(k, f) \<in> set d. \<exists>e. expiry_test rnd cfg now f = Inl e \<and> fst ?r = Inl e"
      using kf by (intro bexI[of _ "(k, f)"]) auto
    with kf(3) show "snd ?r = d \<and>
            (\<exists>(k, f) \<in> set d. \<exists>e. expiry_test rnd cfg now f = Inl e \<and> fst ?r = Inl e)"
      by simp
  qed
  have t1: "\<not> is_number (last_contact g) \<longrightarrow> expiry_test rnd cfg now g = Inl TypeError"
    by (simp add: expiry_test_not_number)
  have t2: "last_contact g = JInt i \<and> (\<forall>x. rnd (of_int i) \<noteq> Finite x) \<longrightarrow>
            expiry_test rnd cfg now g = Inl OverflowError"
    using expiry_test_int_overflow[of g i rnd cfg now] by simp
  have t3: "last_contact g = JNaN \<longrightarrow> expiry_test rnd cfg now g = Inr False"
    by (simp add: expiry_test_nan)
  have t4: "last_contact g = JInt i \<and> rnd (of_int i) = Finite (of_int i) \<and>
          rnd (now - of_int i) = Finite (now - of_int i) \<longrightarrow>
            expiry_test rnd cfg now g = Inr (now - of_int i > of_int (FLIGHT_EXPIRY_TIME cfg))"
    using expiry_test_int_exact[of g i rnd now cfg] by simp
  show ?thesis
    by (rule conjI[OF a conjI[OF b conjI[OF c conjI[OF t1 conjI[OF t2 conjI[OF t3 t4]]]]]])
qed

theorem sweep_removes_what_tests_expired_witness:
  "expiry_sweep no_rounding default_config 1001
      [(KStr ''abc123'', flight_of sample_row), (KStr ''old001'', flight_of old_row)]
     = (Inr (), [(KStr ''abc123'', flight_of sample_row)]) \<and>
   expiry_test no_rounding default_config 1001 (flight_of sample_row) = Inr False \<and>
   expiry_test no_rounding default_config 1001 (flight_of old_row) = Inr True \<and>
   expiry_sweep no_rounding default_config 1001 [(KNone, flight_of bad_row)]
     = (Inl TypeError, [(KNone, flight_of bad_row)])"
proof -
  have t: "expiry_test no_rounding default_config 1001 (flight_of sample_row) = Inr False"
    "expiry_test no_rounding default_config 1001 (flight_of old_row) = Inr True"
    "expiry_test no_rounding default_config 1001 (flight_of bad_row) = Inl TypeError"
    by (simp_all add: expiry_test_def py_sub_def float_op_def f_sub_def no_rounding_def
        flight_of_def sample_row_def old_row_def bad_row_def default_config_def)
  have "distinct (map fst [(KStr ''abc123'', flight_of sample_row), (KStr ''old001'', flight_of old_row)])"
    "distinct (map fst [(KNone, flight_of bad_row)])"
    by simp_all
  from sweep_removes_what_tests_expired [OF this(1), of no_rounding default_config 1001]
    sweep_removes_what_tests_expired [OF this(2), of no_rounding default_config 1001]
  show ?thesis
    by (simp add: t expiry_sweep_def)
qed
subsection \<open>The polling loop\<close>

text \<open>
  \<^verbatim>\<open>asyncio\<close> is not bound in the module, so each of the two \<^verbatim>\<open>asyncio.sleep\<close> calls of
  \<open>start_tracking\<close> raises \<^verbatim>\<open>NameError\<close> and leaves the state as it is.
\<close>

lemma asyncio_sleep_raises: "asyncio_sleep delay s = (Inl NameError, s)"
  by (simp add: asyncio_sleep_def module_globals_def)

lemma try_block_at_capacity:
  "MAX_TRACKED_FLIGHTS cfg \<le> int (length (tracked_flights s)) \<Longrightarrow>
   try_block rnd cfg up area interval s = (Inr True, s)"
  by (simp add: try_block_def)

lemma try_block_below_capacity:
  "int (length (tracked_flights s)) < MAX_TRACKED_FLIGHTS cfg \<Longrightarrow>
   \<exists>e. fst (try_block rnd cfg up area interval s) = Inl e"
  by (auto simp: try_block_def asyncio_sleep_raises split: prod.splits sum.splits option.splits)

lemma iteration_at_capacity:
  "MAX_TRACKED_FLIGHTS cfg \<le> int (length (tracked_flights s)) \<Longrightarrow>
   iteration rnd cfg up area interval s = (Break, s)"
  by (simp add: iteration_def try_block_at_capacity)

lemma iteration_below_capacity:
  assumes "int (length (tracked_flights s)) < MAX_TRACKED_FLIGHTS cfg"
  shows "iteration rnd cfg up area interval s =
           (Raise NameError, snd (try_block rnd cfg up area interval s))"
proof -
  obtain e where "fst (try_block rnd cfg up area interval s) = Inl e"
    using try_block_below_capacity[OF assms] by blast
  then show ?thesis
    by (cases "try_block rnd cfg up area interval s") (simp add: iteration_def asyncio_sleep_raises)
qed

text \<open>
  Hence no iteration is followed by another: an iteration either breaks at capacity or ends
  with the \<^verbatim>\<open>NameError\<close> of the handler's own \<^verbatim>\<open>asyncio.sleep\<close>. The loop always returns.
\<close>

lemma tracking_loop_once:
  "tracking_loop rnd cfg up area interval s =
     (if tracking_active s then
        (if MAX_TRACKED_FLIGHTS cfg \<le> int (length (tracked_flights s)) then Some (Inr (), s)
         else Some (Inl NameError, snd (try_block rnd cfg up area interval s)))
      else Some (Inr (), s))"
  by (subst tracking_loop.simps)
     (simp add: iteration_at_capacity iteration_below_capacity)

lemma tracking_loop_returns: "\<exists>r. tracking_loop rnd cfg up area interval s = Some r"
  by (simp add: tracking_loop_once)

lemma start_tracking_at_capacity:
  "MAX_TRACKED_FLIGHTS cfg \<le> int (length (tracked_flights s)) \<Longrightarrow>
   start_tracking rnd cfg up area interval s = Some (Inr (), s\<lparr>tracking_active := True\<rparr>)"
  by (simp add: start_tracking_def tracking_loop_once)

lemma start_tracking_below_capacity:
  "int (length (tracked_flights s)) < MAX_TRACKED_FLIGHTS cfg \<Longrightarrow>
   start_tracking rnd cfg up area interval s =
     Some (Inl NameError,
           snd (try_block rnd cfg up area
                  (if truthy interval then interval else JInt (DEFAULT_REFRESH_INTERVAL cfg))
                  (s\<lparr>tracking_active := True\<rparr>)))"
  by (simp add: start_tracking_def tracking_loop_once)

text \<open>
  Claim C2. The claim asks that an error raised in an iteration is caught and logged, that
  the loop waits and goes on, and that nothing propagates out of \<open>start_tracking\<close>. With
  the payload \<^verbatim>\<open>{"states": null}\<close> the fetch raises \<^verbatim>\<open>TypeError\<close> inside the \<^verbatim>\<open>try\<close>
  block; \<^verbatim>\<open>except Exception\<close> catches it, and the wait in the handler,
  \<^verbatim>\<open>await asyncio.sleep(interval)\<close>, raises \<^verbatim>\<open>NameError\<close> because the module never imports
  \<^verbatim>\<open>asyncio\<close>. That exception leaves \<open>start_tracking\<close> and ends the loop.
\<close>

theorem iteration_error_leaves_start_tracking:
  "fst (try_block rnd default_config (serving (JObj [(''states'', JNull)])) None (JInt 30)
          ((new_tracker 1000)\<lparr>tracking_active := True\<rparr>)) = Inl TypeError \<and>
   map_option fst (start_tracking rnd default_config (serving (JObj [(''states'', JNull)])) None
                     (JInt 30) (new_tracker 1000)) = Some (Inl NameError)"
proof -
  have "fst (get_states default_config (serving (JObj [(''states'', JNull)])) JNull None
          (new_client 1000)) = Inl TypeError"
    using get_states_200[of default_config "serving (JObj [(''states'', JNull)])" "new_client 1000"
        "JObj [(''states'', JNull)]" JNull None]
    by (simp add: default_config_def serving_def parse_states_def)
  then have "fst (try_block rnd default_config (serving (JObj [(''states'', JNull)])) None (JInt 30)
          ((new_tracker 1000)\<lparr>tracking_active := True\<rparr>)) = Inl TypeError"
    by (cases "get_states default_config (serving (JObj [(''states'', JNull)])) JNull None
          (new_client 1000)")
       (simp add: try_block_def new_tracker_def default_config_def)
  moreover have "int (length (tracked_flights (new_tracker 1000))) < MAX_TRACKED_FLIGHTS default_config"
    by (simp add: new_tracker_def default_config_def)
  then have "map_option fst (start_tracking rnd default_config (serving (JObj [(''states'', JNull)])) None
                     (JInt 30) (new_tracker 1000)) = Some (Inl NameError)"
    by (simp add: start_tracking_below_capacity)
  ultimately show ?thesis by simp
qed

subsection \<open>The size of the cache\<close>

lemma upsert_all_hashable:
  "\<forall>f \<in> set fs. hashable (icao24 f) \<Longrightarrow>
   upsert_all fs d = (Inr (), fold (\<lambda>f. AList.update (the_key f) f) fs d)"
proof (induction fs arbitrary: d)
  case Nil
  then show ?case by simp
next
  case (Cons f fs)
  then have "hashable (icao24 f)" by simp
  then have "hash_key (icao24 f) = Inr (the_key f)"
    by (cases "icao24 f") (simp_all add: the_key_def)
  then show ?case using Cons by simp
qed

lemma length_update_le: "length (AList.update k v d) \<le> Suc (length d)"
  by (induction d) auto

lemma length_upsert_all_le: "length (snd (upsert_all fs d)) \<le> length d + length fs"
proof (induction fs arbitrary: d)
  case Nil
  then show ?case by simp
next
  case (Cons f fs)
  show ?case
  proof (cases "hash_key (icao24 f)")
    case (Inl e)
    then show ?thesis by simp
  next
    case (Inr k)
    have "length (snd (upsert_all fs (AList.update k f d))) \<le> length (AList.update k f d) + length fs"
      by (rule Cons.IH)
    also have "\<dots> \<le> Suc (length d) + length fs"
      using length_update_le[of k f d] by simp
    finally show ?thesis using Inr by simp
  qed
qed

lemma fold_update_new:
  "distinct (map the_key fs) \<Longrightarrow> set (map the_key fs) \<inter> fst ` set d = {} \<Longrightarrow>
   fold (\<lambda>f. AList.update (the_key f) f) fs d = d @ map (\<lambda>f. (the_key f, f)) fs"
proof (induction fs arbitrary: d)
  case Nil
  then show ?case by simp
next
  case (Cons f fs)
  have new: "the_key f \<notin> fst ` set d" using Cons.prems by auto
  have upd: "\<And>v. AList.update (the_key f) v d = d @ [(the_key f, v)]"
    using new by (induction d) auto
  have "set (map the_key fs) \<inter> fst ` set (d @ [(the_key f, f)]) = {}"
    using Cons.prems by auto
  with Cons.IH[of "d @ [(the_key f, f)]"] Cons.prems(1)
  show ?case by (simp add: upd)
qed

lemma update_new_key: "k \<notin> fst ` set d \<Longrightarrow> AList.update k v d = d @ [(k, v)]"
  by (induction d) auto

text \<open>
  The cache after the \<^verbatim>\<open>try\<close> block of an iteration that begins below capacity and whose
  fetch returns flights with hashable \<^verbatim>\<open>icao24\<close>: every flight is upserted, then the sweep
  runs; no step compares the size with the maximum.
\<close>

lemma try_block_upserts:
  assumes "int (length (tracked_flights s)) < MAX_TRACKED_FLIGHTS cfg"
    and "(case area of
            Some a \<Rightarrow> get_flights_by_area cfg up a (client s)
          | None \<Rightarrow> get_states cfg up JNull None (client s)) = (Inr flights, c)"
    and "\<forall>f \<in> set flights. hashable (icao24 f)"
  shows "tracked_flights (snd (try_block rnd cfg up area interval s)) =
           snd (expiry_sweep rnd cfg (clock c)
                  (fold (\<lambda>f. AList.update (the_key f) f) flights (tracked_flights s)))"
proof -
  let ?d = "fold (\<lambda>f. AList.update (the_key f) f) flights (tracked_flights s)"
  have u: "upsert_all flights (tracked_flights s) = (Inr (), ?d)"
    using assms(3) by (rule upsert_all_hashable)
  obtain r d' where sw: "expiry_sweep rnd cfg (clock c) ?d = (r, d')"
    by (cases "expiry_sweep rnd cfg (clock c) ?d")
  have "tracked_flights (snd (try_block rnd cfg up area interval s)) = d'"
    using assms(1) by (cases r) (simp_all add: try_block_def assms(2) u sw asyncio_sleep_raises)
  then show ?thesis by (simp add: sw)
qed

lemma iteration_upserts:
  assumes "int (length (tracked_flights s)) < MAX_TRACKED_FLIGHTS cfg"
    and "(case area of
            Some a \<Rightarrow> get_flights_by_area cfg up a (client s)
          | None \<Rightarrow> get_states cfg up JNull None (client s)) = (Inr flights, c)"
    and "\<forall>f \<in> set flights. hashable (icao24 f)"
  shows "tracked_flights (snd (iteration rnd cfg up area interval s)) =
           snd (expiry_sweep rnd cfg (clock c)
                  (fold (\<lambda>f. AList.update (the_key f) f) flights (tracked_flights s)))"
  using try_block_upserts[OF assms] by (simp add: iteration_below_capacity[OF assms(1)])

lemma parse_crowd: "parse_rows crowd [] = Inr (map (\<lambda>i. flight_of (crowd_row i)) [0..<1001])"
proof -
  have "\<forall>r \<in> set crowd. is_array r" by (simp add: crowd_def)
  moreover have "filter (\<lambda>xs. 17 \<le> length xs) (map elements crowd) = map crowd_row [0..<1001]"
    by (simp add: crowd_def comp_def crowd_row_def)
  ultimately show ?thesis using parse_rows_arrays[of crowd "[]"] by (simp add: comp_def)
qed

lemma the_key_crowd: "the_key (flight_of (crowd_row i)) = KStr (replicate (Suc i) (CHR ''a''))"
  by (simp add: the_key_def flight_of_def crowd_row_def)

lemma distinct_crowd_keys:
  "distinct (map (\<lambda>i. KStr (replicate (Suc i) (CHR ''a''))) [0..<n])"
proof -
  have "inj_on (\<lambda>i. KStr (replicate (Suc i) (CHR ''a''))) (set [0..<n])"
  proof (rule inj_onI)
    fix i j assume "KStr (replicate (Suc i) (CHR ''a'')) = KStr (replicate (Suc j) (CHR ''a''))"
    then have "length (replicate (Suc i) (CHR ''a'')) = length (replicate (Suc j) (CHR ''a''))"
      by simp
    then show "i = j" by simp
  qed
  then show ?thesis by (simp add: distinct_map)
qed

lemma fold_crowd:
  "fold (\<lambda>f. AList.update (the_key f) f) (map (\<lambda>i. flight_of (crowd_row i)) [0..<1001]) []
     = crowd_cache"
proof -
  let ?fs = "map (\<lambda>i. flight_of (crowd_row i)) [0..<1001]"
  have "distinct (map the_key ?fs)"
    using distinct_crowd_keys[of 1001] by (simp add: comp_def the_key_crowd)
  then have "fold (\<lambda>f. AList.update (the_key f) f) ?fs [] = [] @ map (\<lambda>f. (the_key f, f)) ?fs"
    by (rule fold_update_new) simp
  moreover have "map (\<lambda>f. (the_key f, f)) ?fs = crowd_cache"
    by (simp add: crowd_cache_def comp_def the_key_crowd)
  ultimately show ?thesis by simp
qed

lemma hashable_crowd:
  "\<forall>f \<in> set (map (\<lambda>i. flight_of (crowd_row i)) [0..<1001]). hashable (icao24 f)"
  by (auto simp: flight_of_def crowd_row_def)

lemma test_crowd:
  "expiry_test no_rounding default_config 1001 (flight_of (crowd_row i)) = Inr False"
  by (simp add: expiry_test_def py_sub_def float_op_def f_sub_def no_rounding_def
      flight_of_def crowd_row_def default_config_def)

lemma sweep_crowd:
  "expiry_sweep no_rounding default_config 1001 crowd_cache = (Inr (), crowd_cache)"
proof -
  have "distinct (map fst crowd_cache)"
    using distinct_crowd_keys[of 1001] by (simp add: crowd_cache_def comp_def)
  moreover have "\<forall>(k, f) \<in> set crowd_cache.
      \<exists>b. expiry_test no_rounding default_config 1001 f = Inr b"
    by (auto simp: crowd_cache_def test_crowd)
  ultimately have "expiry_sweep no_rounding default_config 1001 crowd_cache =
      (Inr (), filter (\<lambda>(k, f). expiry_test no_rounding default_config 1001 f \<noteq> Inr True)
                 crowd_cache)"
    by (rule expiry_sweep_completes)
  moreover have "filter (\<lambda>(k, f). expiry_test no_rounding default_config 1001 f \<noteq> Inr True)
      crowd_cache = crowd_cache"
    by (rule filter_True) (auto simp: crowd_cache_def test_crowd)
  ultimately show ?thesis by simp
qed

lemma fetch_crowd:
  "get_states default_config (serving (states_payload crowd)) JNull None (new_client 1000) =
     (Inr (map (\<lambda>i. flight_of (crowd_row i)) [0..<1001]),
      \<lparr>clock = 1001, last_request_time = 1001, n_sent = 1,
       trace = [(1000, Request ''states/all'' [])]\<rparr>)"
proof -
  have "py_range (MAX_RETRIES default_config) = [0, 1, 2]"
    by (simp add: py_range_def default_config_def upt_rec)
  then have "get_states default_config (serving (states_payload crowd)) JNull None (new_client 1000) =
     (parse_states (states_payload crowd),
      \<lparr>clock = 1001, last_request_time = 1001, n_sent = 1,
       trace = [(1000, Request ''states/all'' [])]\<rparr>)"
    by (simp add: get_states_def make_request_def serving_def new_client_def
        session_get_def Let_def query_params_def default_config_def)
  moreover have "parse_states (states_payload crowd) = parse_rows crowd []"
    unfolding states_payload_def by (rule parse_states_of_rows) simp
  ultimately show ?thesis by (simp only: parse_crowd)
qed

lemma poll_crowd:
  "tracked_flights (snd (iteration no_rounding default_config (serving (states_payload crowd))
      None interval ((new_tracker 1000)\<lparr>tracking_active := True\<rparr>))) = crowd_cache"
proof -
  have "tracked_flights (snd (iteration no_rounding default_config
      (serving (states_payload crowd)) None interval ((new_tracker 1000)\<lparr>tracking_active := True\<rparr>)))
    = snd (expiry_sweep no_rounding default_config
        (clock \<lparr>clock = 1001, last_request_time = 1001, n_sent = 1,
                trace = [(1000, Request ''states/all'' [])]\<rparr>)
        (fold (\<lambda>f. AList.update (the_key f) f) (map (\<lambda>i. flight_of (crowd_row i)) [0..<1001])
           (tracked_flights ((new_tracker 1000)\<lparr>tracking_active := True\<rparr>))))"
    by (rule iteration_upserts)
       (simp_all add: new_tracker_def default_config_def fetch_crowd[unfolded default_config_def]
          hashable_crowd[simplified])
  then show ?thesis
    by (simp add: new_tracker_def fold_crowd sweep_crowd)
qed

text \<open>
  Claim C1, as stated, fails: the size of the cache is compared with
  \<open>MAX_TRACKED_FLIGHTS\<close> only when an iteration begins. One poll iteration on the empty
  cache, with the default configuration and an upstream batch of 1001 flights, leaves 1001
  entries where the maximum is 1000.
\<close>

theorem poll_exceeds_capacity:
  "tracked_flights (new_tracker 1000) = [] \<and>
   map_option (\<lambda>r. (fst r, tracked_flights (snd r)))
     (start_tracking no_rounding default_config (serving (states_payload crowd)) None JNull
        (new_tracker 1000))
     = Some (Inl NameError, crowd_cache) \<and>
   length crowd_cache = 1001 \<and> MAX_TRACKED_FLIGHTS default_config = 1000"
proof -
  have below: "int (length (tracked_flights ((new_tracker 1000)\<lparr>tracking_active := True\<rparr>)))
      < MAX_TRACKED_FLIGHTS default_config"
    by (simp add: new_tracker_def default_config_def)
  have "tracked_flights (snd (try_block no_rounding default_config
      (serving (states_payload crowd)) None (JInt 30)
      ((new_tracker 1000)\<lparr>tracking_active := True\<rparr>))) = crowd_cache"
    using poll_crowd[of "JInt 30"] by (simp add: iteration_below_capacity[OF below])
  moreover have "int (length (tracked_flights (new_tracker 1000))) < MAX_TRACKED_FLIGHTS default_config"
    by (simp add: new_tracker_def default_config_def)
  ultimately show ?thesis
    using start_tracking_below_capacity[where s = "new_tracker 1000" and cfg = default_config
        and rnd = no_rounding and up = "serving (states_payload crowd)" and area = None
        and interval = JNull]
    by (simp add: default_config_def new_tracker_def crowd_cache_def)
qed

lemma get_flight_info_length:
  "length (tracked_flights (snd (get_flight_info strip cfg up icao s))) \<le> Suc (length (tracked_flights s))"
proof (cases "hash_key icao")
  case (Inl e)
  then show ?thesis by (simp add: get_flight_info_def)
next
  case (Inr k)
  show ?thesis
  proof (cases "map_of (tracked_flights s) k")
    case (Some f)
    then show ?thesis using Inr by (simp add: get_flight_info_def)
  next
    case None
    obtain r c where g: "get_flight_by_icao cfg up icao (client s) = (r, c)"
      by (cases "get_flight_by_icao cfg up icao (client s)")
    show ?thesis
    proof (cases r)
      case (Inl e)
      then show ?thesis using Inr None g by (simp add: get_flight_info_def)
    next
      case r: (Inr found)
      show ?thesis
      proof (cases found)
        case None': None
        then show ?thesis using Inr None g r by (simp add: get_flight_info_def)
      next
        case (Some flight)
        then show ?thesis using Inr None g r length_update_le[of k flight "tracked_flights s"]
          by (simp add: get_flight_info_def)
      qed
    qed
  qed
qed

lemma get_flight_info_miss:
  assumes "hash_key icao = Inr k" and "k \<notin> fst ` set (tracked_flights s)"
    and "fst (get_flight_by_icao cfg up icao (client s)) = Inr (Some f)"
  shows "tracked_flights (snd (get_flight_info strip cfg up icao s)) = tracked_flights s @ [(k, f)]"
proof -
  have "map_of (tracked_flights s) k = None"
    using assms(2) by (simp add: map_of_eq_None_iff)
  then show ?thesis using assms(1,3) update_new_key[OF assms(2)]
    by (cases "get_flight_by_icao cfg up icao (client s)") (simp add: get_flight_info_def)
qed

lemma abc123_not_in_crowd: "KStr ''abc123'' \<notin> fst ` set crowd_cache"
proof
  assume "KStr ''abc123'' \<in> fst ` set crowd_cache"
  then have "KStr ''abc123'' \<in> (\<lambda>i. KStr (replicate (Suc i) (CHR ''a''))) ` set [0..<1001]"
    by (simp only: crowd_cache_def set_map image_image fst_conv)
  then obtain i where "KStr ''abc123'' = KStr (replicate (Suc i) (CHR ''a''))"
    by (rule imageE)
  then have eq: "replicate (Suc i) (CHR ''a'') = ''abc123''"
    by (simp only: pykey.inject)
  have "CHR ''b'' \<in> set ''abc123''" by simp
  then have "CHR ''b'' \<in> set (replicate (Suc i) (CHR ''a''))"
    by (simp only: eq)
  then show False by simp
qed
text \<open>
  Claim C1, amended. A poll iteration that begins with the cache at or above
  \<open>MAX_TRACKED_FLIGHTS\<close> ends the polling loop and leaves the cache as it was. An
  iteration that begins below the maximum and whose fetch returns flights with hashable
  \<^verbatim>\<open>icao24\<close> upserts every one of them, whatever size results, and then runs the expiry
  sweep. A read-through lookup adds at most one entry, and on a miss that the upstream
  answers it appends the flight whatever the size of the cache.
\<close>

theorem capacity_tested_at_iteration_start_only:
  "(MAX_TRACKED_FLIGHTS cfg \<le> int (length (tracked_flights s)) \<longrightarrow>
      start_tracking rnd cfg up area interval s = Some (Inr (), s\<lparr>tracking_active := True\<rparr>)) \<and>
   (int (length (tracked_flights s)) < MAX_TRACKED_FLIGHTS cfg \<and>
    (case area of
       Some a \<Rightarrow> get_flights_by_area cfg up a (client s)
     | None \<Rightarrow> get_states cfg up JNull None (client s)) = (Inr flights, c) \<and>
    (\<forall>f \<in> set flights. hashable (icao24 f)) \<longrightarrow>
      tracked_flights (snd (iteration rnd cfg up area interval s)) =
        snd (expiry_sweep rnd cfg (clock c)
               (fold (\<lambda>f. AList.update (the_key f) f) flights (tracked_flights s)))) \<and>
   length (tracked_flights (snd (get_flight_info strip cfg up icao s)))
     \<le> Suc (length (tracked_flights s)) \<and>
   (hash_key icao = Inr k \<and> k \<notin> fst ` set (tracked_flights s) \<and>
    fst (get_flight_by_icao cfg up icao (client s)) = Inr (Some f) \<longrightarrow>
      tracked_flights (snd (get_flight_info strip cfg up icao s)) = tracked_flights s @ [(k, f)])"
proof (intro conjI impI)
  assume "MAX_TRACKED_FLIGHTS cfg \<le> int (length (tracked_flights s))"
  then show "start_tracking rnd cfg up area interval s = Some (Inr (), s\<lparr>tracking_active := True\<rparr>)"
    by (rule start_tracking_at_capacity)
next
  assume "int (length (tracked_flights s)) < MAX_TRACKED_FLIGHTS cfg \<and>
    (case area of
       Some a \<Rightarrow> get_flights_by_area cfg up a (client s)
     | None \<Rightarrow> get_states cfg up JNull None (client s)) = (Inr flights, c) \<and>
    (\<forall>f \<in> set flights. hashable (icao24 f))"
  then have "int (length (tracked_flights s)) < MAX_TRACKED_FLIGHTS cfg"
    and "(case area of
       Some a \<Rightarrow> get_flights_by_area cfg up a (client s)
     | None \<Rightarrow> get_states cfg up JNull None (client s)) = (Inr flights, c)"
    and "\<forall>f \<in> set flights. hashable (icao24 f)"
    by blast+
  then show "tracked_flights (snd (iteration rnd cfg up area interval s)) =
        snd (expiry_sweep rnd cfg (clock c)
               (fold (\<lambda>f. AList.update (the_key f) f) flights (tracked_flights s)))"
    by (rule iteration_upserts)
next
  show "length (tracked_flights (snd (get_flight_info strip cfg up icao s)))
     \<le> Suc (length (tracked_flights s))"
    by (rule get_flight_info_length)
next
  assume "hash_key icao = Inr k \<and> k \<notin> fst ` set (tracked_flights s) \<and>
    fst (get_flight_by_icao cfg up icao (client s)) = Inr (Some f)"
  then show "tracked_flights (snd (get_flight_info strip cfg up icao s)) = tracked_flights s @ [(k, f)]"
    using get_flight_info_miss[where icao = icao and k = k and s = s and cfg = cfg and up = up
        and f = f and strip = strip] by simp
qed

theorem capacity_tested_at_iteration_start_only_witness:
  "start_tracking no_rounding default_config failing_upstream None JNull full_tracker
     = Some (Inr (), full_tracker\<lparr>tracking_active := True\<rparr>) \<and>
   tracked_flights (snd (iteration no_rounding default_config (serving (states_payload crowd))
      None (JInt 30) ((new_tracker 1000)\<lparr>tracking_active := True\<rparr>))) = crowd_cache \<and>
   tracked_flights (snd (get_flight_info ascii_strip default_config
                           (serving (states_payload [JList sample_row]))
                           (JStr ''abc123'') full_tracker))
     = crowd_cache @ [(KStr ''abc123'', flight_of sample_row)] \<and>
   length crowd_cache = 1001 \<and> MAX_TRACKED_FLIGHTS default_config = 1000"
proof -
  have h: "MAX_TRACKED_FLIGHTS default_config \<le> int (length (tracked_flights full_tracker))"
    by (simp add: full_tracker_def crowd_cache_def default_config_def)
  have "fst (get_states default_config (serving (states_payload [JList sample_row]))
          (JStr ''abc123'') None (client full_tracker)) = parse_states (states_payload [JList sample_row])"
    by (rule get_states_200) (simp_all add: default_config_def serving_def)
  moreover have "parse_states (states_payload [JList sample_row]) = parse_rows [JList sample_row] []"
    unfolding states_payload_def by (rule parse_states_of_rows) simp
  moreover have "parse_rows [JList sample_row] [] = Inr [flight_of sample_row]"
    by (simp add: decode_row_long sample_row_def)
  ultimately have g: "fst (get_flight_by_icao default_config (serving (states_payload [JList sample_row]))
          (JStr ''abc123'') (client full_tracker)) = Inr (Some (flight_of sample_row))"
    by (cases "get_states default_config (serving (states_payload [JList sample_row]))
          (JStr ''abc123'') None (client full_tracker)") (simp add: get_flight_by_icao_def)
  have k: "KStr ''abc123'' \<notin> fst ` set (tracked_flights full_tracker)"
    using abc123_not_in_crowd by (simp add: full_tracker_def)
  have t: "tracked_flights full_tracker = crowd_cache" by (simp add: full_tracker_def)
  have l: "length crowd_cache = 1001" "MAX_TRACKED_FLIGHTS default_config = 1000"
    by (simp_all add: crowd_cache_def default_config_def)
  let ?s0 = "(new_tracker 1000)\<lparr>tracking_active := True\<rparr>"
  have below: "int (length (tracked_flights ?s0)) < MAX_TRACKED_FLIGHTS default_config"
    by (simp add: new_tracker_def default_config_def)
  have fetch: "(case None of
       Some a \<Rightarrow> get_flights_by_area default_config (serving (states_payload crowd)) a (client ?s0)
     | None \<Rightarrow> get_states default_config (serving (states_payload crowd)) JNull None (client ?s0))
     = (Inr (map (\<lambda>i. flight_of (crowd_row i)) [0..<1001]),
        \<lparr>clock = 1001, last_request_time = 1001, n_sent = 1,
         trace = [(1000, Request ''states/all'' [])]\<rparr>)"
    by (simp add: new_tracker_def fetch_crowd)
  have p: "tracked_flights (snd (iteration no_rounding default_config
      (serving (states_payload crowd)) None (JInt 30) ?s0))
    = snd (expiry_sweep no_rounding default_config
        (clock \<lparr>clock = 1001, last_request_time = 1001, n_sent = 1,
                trace = [(1000, Request ''states/all'' [])]\<rparr>)
        (fold (\<lambda>f. AList.update (the_key f) f) (map (\<lambda>i. flight_of (crowd_row i)) [0..<1001])
           (tracked_flights ?s0)))"
    using capacity_tested_at_iteration_start_only [where cfg = default_config and s = ?s0
        and up = "serving (states_payload crowd)" and area = None and rnd = no_rounding
        and interval = "JInt 30" and flights = "map (\<lambda>i. flight_of (crowd_row i)) [0..<1001]"
        and c = "\<lparr>clock = 1001, last_request_time = 1001, n_sent = 1,
                trace = [(1000, Request ''states/all'' [])]\<rparr>"]
      below fetch hashable_crowd
    by blast
  have p': "tracked_flights (snd (iteration no_rounding default_config
      (serving (states_payload crowd)) None (JInt 30) ?s0)) = crowd_cache"
    unfolding p by (simp add: new_tracker_def fold_crowd sweep_crowd)
  have a: "start_tracking no_rounding default_config failing_upstream None JNull full_tracker
     = Some (Inr (), full_tracker\<lparr>tracking_active := True\<rparr>)"
    using capacity_tested_at_iteration_start_only [where cfg = default_config and s = full_tracker
        and up = failing_upstream and area = None and interval = JNull and rnd = no_rounding] h
    by blast
  have m: "tracked_flights (snd (get_flight_info ascii_strip default_config
                           (serving (states_payload [JList sample_row]))
                           (JStr ''abc123'') full_tracker))
     = tracked_flights full_tracker @ [(KStr ''abc123'', flight_of sample_row)]"
    using capacity_tested_at_iteration_start_only [where cfg = default_config and s = full_tracker
        and up = "serving (states_payload [JList sample_row])" and icao = "JStr ''abc123''"
        and k = "KStr ''abc123''" and f = "flight_of sample_row" and strip = ascii_strip] g k
    by simp
  show ?thesis using a p' m by (simp add: t l)
qed

text \<open>
  Claim C7, as stated, fails. The rows \<open>old_row\<close> (last heard of at 500) and \<open>bad_row\<close>
  (\<^verbatim>\<open>last_contact\<close> a string) reach the cache by one poll iteration at time 1000. The sweep
  at 1001 raises \<^verbatim>\<open>TypeError\<close> on the second entry and removes nothing, so the first entry
  remains although 1001 - 500 exceeds \<open>FLIGHT_EXPIRY_TIME\<close>.
\<close>

theorem aborted_sweep_keeps_stale_entry:
  "map_option (\<lambda>r. tracked_flights (snd r))
     (start_tracking no_rounding default_config
        (serving (states_payload [JList old_row, JList bad_row])) None JNull (new_tracker 1000))
     = Some [(KStr ''old001'', flight_of old_row), (KNone, flight_of bad_row)] \<and>
   expiry_sweep no_rounding default_config 1001
      [(KStr ''old001'', flight_of old_row), (KNone, flight_of bad_row)]
     = (Inl TypeError, [(KStr ''old001'', flight_of old_row), (KNone, flight_of bad_row)]) \<and>
   last_contact (flight_of old_row) = JInt 500 \<and>
   (1001 :: real) - 500 > of_int (FLIGHT_EXPIRY_TIME default_config)"
proof -
  let ?d = "[(KStr ''old001'', flight_of old_row), (KNone, flight_of bad_row)]"
  let ?s0 = "(new_tracker 1000)\<lparr>tracking_active := True\<rparr>"
  let ?up = "serving (states_payload [JList old_row, JList bad_row])"
  have t: "expiry_test no_rounding default_config 1001 (flight_of old_row) = Inr True"
    "expiry_test no_rounding default_config 1001 (flight_of bad_row) = Inl TypeError"
    by (simp_all add: expiry_test_def py_sub_def float_op_def f_sub_def no_rounding_def
        flight_of_def old_row_def bad_row_def default_config_def)
  have sw: "expiry_sweep no_rounding default_config 1001 ?d = (Inl TypeError, ?d)"
    by (simp add: expiry_sweep_def t)
  have "py_range (MAX_RETRIES default_config) = [0, 1, 2]"
    by (simp add: py_range_def default_config_def upt_rec)
  then have "get_states default_config ?up JNull None (new_client 1000) =
     (parse_states (states_payload [JList old_row, JList bad_row]),
      \<lparr>clock = 1001, last_request_time = 1001, n_sent = 1,
       trace = [(1000, Request ''states/all'' [])]\<rparr>)"
    by (simp add: get_states_def make_request_def serving_def new_client_def
        session_get_def Let_def query_params_def default_config_def)
  moreover have "parse_states (states_payload [JList old_row, JList bad_row])
      = parse_rows [JList old_row, JList bad_row] []"
    unfolding states_payload_def by (rule parse_states_of_rows) simp
  moreover have "parse_rows [JList old_row, JList bad_row] [] = Inr [flight_of old_row, flight_of bad_row]"
    by (simp add: decode_row_long old_row_def bad_row_def)
  ultimately have fetch: "(case None of
       Some a \<Rightarrow> get_flights_by_area default_config ?up a (client ?s0)
     | None \<Rightarrow> get_states default_config ?up JNull None (client ?s0))
     = (Inr [flight_of old_row, flight_of bad_row],
        \<lparr>clock = 1001, last_request_time = 1001, n_sent = 1,
         trace = [(1000, Request ''states/all'' [])]\<rparr>)"
    by (simp add: new_tracker_def)
  have below: "int (length (tracked_flights ?s0)) < MAX_TRACKED_FLIGHTS default_config"
    by (simp add: new_tracker_def default_config_def)
  have keys: "the_key (flight_of old_row) = KStr ''old001''" "the_key (flight_of bad_row) = KNone"
    by (simp_all add: the_key_def flight_of_def old_row_def bad_row_def)
  have "\<forall>f \<in> set [flight_of old_row, flight_of bad_row]. hashable (icao24 f)"
    by (simp add: flight_of_def old_row_def bad_row_def)
  from try_block_upserts[OF below fetch this, of no_rounding "JInt 30"]
  have "tracked_flights (snd (try_block no_rounding default_config ?up None (JInt 30) ?s0)) = ?d"
    by (simp add: new_tracker_def keys sw)
  moreover have "int (length (tracked_flights (new_tracker 1000))) < MAX_TRACKED_FLIGHTS default_config"
    by (simp add: new_tracker_def default_config_def)
  ultimately have "map_option (\<lambda>r. tracked_flights (snd r))
     (start_tracking no_rounding default_config ?up None JNull (new_tracker 1000)) = Some ?d"
    using start_tracking_below_capacity[where s = "new_tracker 1000" and cfg = default_config
        and rnd = no_rounding and up = ?up and area = None and interval = JNull]
    by (simp add: default_config_def)
  moreover have "last_contact (flight_of old_row) = JInt 500"
    "(1001 :: real) - 500 > of_int (FLIGHT_EXPIRY_TIME default_config)"
    by (simp_all add: flight_of_def old_row_def default_config_def)
  ultimately show ?thesis using sw by simp
qed
subsection \<open>The lifecycle tools\<close>

text \<open>
  Lines 255-263 raise nothing when the four keys are present and the centre and the radius
  are \<^verbatim>\<open>int\<close>s: the square is computed exactly.
\<close>

lemma tracking_area_ints:
  assumes "getitem args ''latitude'' = Inr lat" and "getitem args ''longitude'' = Inr lon"
    and "getitem args ''radius'' = Inr radius" and "getitem args ''interval'' = Inr interval"
    and "int_of lat = Some la" and "int_of lon = Some lo" and "int_of radius = Some r"
  shows "tracking_area rnd args =
           Inr ((JInt (la - r), JInt (la + r), JInt (lo - r), JInt (lo + r)), interval)"
  using assms by (simp add: tracking_area_def and_then_def py_sub_def py_add_def)

lemma start_while_active:
  assumes "tracking_active s" and "tracking_area rnd args = Inr (area, interval)"
  shows "start_continuous_tracking rnd args s = (Inr (status ''already_running''), s)"
  using assms by (cases area) (simp add: start_continuous_tracking_def)

lemma start_raises:
  assumes "tracking_area rnd args = Inl e"
  shows "start_continuous_tracking rnd args s = (Inl e, s)"
  using assms by (simp add: start_continuous_tracking_def)

lemma start_while_inactive:
  assumes "\<not> tracking_active s"
    and "tracking_area rnd args = Inr ((min_lat, max_lat, min_lon, max_lon), interval)"
  shows "start_continuous_tracking rnd args s =
           (Inr (JObj [(''status'', JStr ''started''),
                       (''area'', JObj [(''min_lat'', min_lat), (''max_lat'', max_lat),
                                        (''min_lon'', min_lon), (''max_lon'', max_lon)])]),
            s\<lparr>loop_tasks := loop_tasks s @
                 [\<lparr>task_area = (min_lat, max_lat, min_lon, max_lon),
                   task_interval = interval, cancel_requested = False\<rparr>],
              tracking_task := Some (length (loop_tasks s))\<rparr>)"
  using assms by (simp add: start_continuous_tracking_def)

lemma call_tool_start:
  "call_tool rnd query (start_request args) rid s =
     (case start_continuous_tracking rnd args s of
        (Inr result, s') \<Rightarrow> (Success rid result, s')
      | (Inl e, s') \<Rightarrow> (Error rid (Exception_text e), s'))"
  by (simp add: call_tool_def start_request_def dict_get_def query_tools_def)

lemma call_tool_stop:
  "call_tool rnd query stop_request rid s =
     (case stop_tracking s of
        (Inr result, s') \<Rightarrow> (Success rid result, s')
      | (Inl e, s') \<Rightarrow> (Error rid (Exception_text e), s'))"
  by (simp add: call_tool_def stop_request_def dict_get_def query_tools_def)

lemma incomplete_args_raise: "tracking_area rnd incomplete_args = Inl KeyError"
  by (simp add: tracking_area_def and_then_def incomplete_args_def)

text \<open>
  Claim C8, as stated, fails: the handler reads its four arguments before it looks at the
  active flag. A start request without \<^verbatim>\<open>interval\<close>, sent while tracking is active, gets
  an error envelope for the \<^verbatim>\<open>KeyError\<close>, not \<open>already_running\<close>.
\<close>

theorem start_without_interval_while_active:
  "tracking_active ((new_tracker 1000)\<lparr>tracking_active := True\<rparr>) \<and>
   call_tool no_rounding no_query (start_request incomplete_args) (JInt 7)
      ((new_tracker 1000)\<lparr>tracking_active := True\<rparr>)
     = (Error (JInt 7) (Exception_text KeyError), (new_tracker 1000)\<lparr>tracking_active := True\<rparr>)"
  by (simp add: call_tool_start start_raises incomplete_args_raise)

text \<open>
  Claim C8, amended. While the active flag is set, a start request whose four arguments are
  read and whose square is computed without an exception gets a success envelope with
  status \<open>already_running\<close> and changes nothing: no task is added to the event loop. That
  is so whenever the four keys are present and latitude, longitude and radius are
  \<^verbatim>\<open>int\<close>s. A start request for which reading the arguments or computing the square raises
  gets an error envelope carrying the exception, in any state. While the flag is not set, a
  stop request gets a success envelope with status \<open>not_running\<close> and changes nothing. Of
  two stop requests in a row the second reports \<open>not_running\<close>, in any state. While the
  flag is not set, a start request whose arguments raise nothing reports \<open>started\<close> and
  adds one task to the event loop.
\<close>

theorem lifecycle_misuse_is_reported:
  "(tracking_active s \<and> tracking_area rnd args = Inr (area, interval) \<longrightarrow>
      call_tool rnd query (start_request args) rid s = (Success rid (status ''already_running''), s)) \<and>
   (getitem args ''latitude'' = Inr lat \<and> getitem args ''longitude'' = Inr lon \<and>
    getitem args ''radius'' = Inr radius \<and> getitem args ''interval'' = Inr iv \<and>
    int_of lat = Some la \<and> int_of lon = Some lo \<and> int_of radius = Some r \<longrightarrow>
      tracking_area rnd args =
        Inr ((JInt (la - r), JInt (la + r), JInt (lo - r), JInt (lo + r)), iv)) \<and>
   (tracking_area rnd args = Inl e \<longrightarrow>
      call_tool rnd query (start_request args) rid s = (Error rid (Exception_text e), s)) \<and>
   (\<not> tracking_active s \<longrightarrow>
      call_tool rnd query stop_request rid s = (Success rid (status ''not_running''), s)) \<and>
   fst (call_tool rnd query stop_request rid' (snd (call_tool rnd query stop_request rid s)))
     = Success rid' (status ''not_running'') \<and>
   loop_tasks (snd (call_tool rnd query stop_request rid' (snd (call_tool rnd query stop_request rid s))))
     = loop_tasks (snd (call_tool rnd query stop_request rid s)) \<and>
   (\<not> tracking_active s \<and>
    tracking_area rnd args = Inr ((min_lat, max_lat, min_lon, max_lon), interval) \<longrightarrow>
      call_tool rnd query (start_request args) rid s
        = (Success rid
             (JObj [(''status'', JStr ''started''),
                    (''area'', JObj [(''min_lat'', min_lat), (''max_lat'', max_lat),
                                     (''min_lon'', min_lon), (''max_lon'', max_lon)])]),
           s\<lparr>loop_tasks := loop_tasks s @
                 [\<lparr>task_area = (min_lat, max_lat, min_lon, max_lon),
                   task_interval = interval, cancel_requested = False\<rparr>],
              tracking_task := Some (length (loop_tasks s))\<rparr>))"
proof (intro conjI impI)
  assume "tracking_active s \<and> tracking_area rnd args = Inr (area, interval)"
  then show "call_tool rnd query (start_request args) rid s
      = (Success rid (status ''already_running''), s)"
    by (simp add: call_tool_start start_while_active)
next
  assume "getitem args ''latitude'' = Inr lat \<and> getitem args ''longitude'' = Inr lon \<and>
    getitem args ''radius'' = Inr radius \<and> getitem args ''interval'' = Inr iv \<and>
    int_of lat = Some la \<and> int_of lon = Some lo \<and> int_of radius = Some r"
  then show "tracking_area rnd args =
        Inr ((JInt (la - r), JInt (la + r), JInt (lo - r), JInt (lo + r)), iv)"
    using tracking_area_ints[of args lat lon radius iv la lo r rnd] by blast
next
  assume "tracking_area rnd args = Inl e"
  then show "call_tool rnd query (start_request args) rid s = (Error rid (Exception_text e), s)"
    by (simp add: call_tool_start start_raises)
next
  assume "\<not> tracking_active s"
  then show "call_tool rnd query stop_request rid s = (Success rid (status ''not_running''), s)"
    by (simp add: call_tool_stop stop_tracking_def)
next
  show "fst (call_tool rnd query stop_request rid' (snd (call_tool rnd query stop_request rid s)))
     = Success rid' (status ''not_running'')"
    by (simp add: call_tool_stop stop_tracking_def tracker_stop_tracking_def Let_def
        split: option.splits)
next
  show "loop_tasks (snd (call_tool rnd query stop_request rid' (snd (call_tool rnd query stop_request rid s))))
     = loop_tasks (snd (call_tool rnd query stop_request rid s))"
    by (simp add: call_tool_stop stop_tracking_def tracker_stop_tracking_def Let_def
        split: option.splits)
next
  assume "\<not> tracking_active s \<and>
    tracking_area rnd args = Inr ((min_lat, max_lat, min_lon, max_lon), interval)"
  then have "start_continuous_tracking rnd args s =
      (Inr (JObj [(''status'', JStr ''started''),
                  (''area'', JObj [(''min_lat'', min_lat), (''max_lat'', max_lat),
                                   (''min_lon'', min_lon), (''max_lon'', max_lon)])]),
       s\<lparr>loop_tasks := loop_tasks s @
             [\<lparr>task_area = (min_lat, max_lat, min_lon, max_lon),
               task_interval = interval, cancel_requested = False\<rparr>],
          tracking_task := Some (length (loop_tasks s))\<rparr>)"
    using start_while_inactive[of s rnd args min_lat max_lat min_lon max_lon interval] by blast
  then show "call_tool rnd query (start_request args) rid s
        = (Success rid
             (JObj [(''status'', JStr ''started''),
                    (''area'', JObj [(''min_lat'', min_lat), (''max_lat'', max_lat),
                                     (''min_lon'', min_lon), (''max_lon'', max_lon)])]),
           s\<lparr>loop_tasks := loop_tasks s @
                 [\<lparr>task_area = (min_lat, max_lat, min_lon, max_lon),
                   task_interval = interval, cancel_requested = False\<rparr>],
              tracking_task := Some (length (loop_tasks s))\<rparr>)"
    by (simp add: call_tool_start)
qed

theorem lifecycle_misuse_is_reported_witness:
  "tracking_area no_rounding sample_args
     = Inr ((JReal 33, JReal 37, JReal (- 82), JReal (- 78)), JInt 30) \<and>
   call_tool no_rounding no_query (start_request sample_args) (JInt 7)
      ((new_tracker 1000)\<lparr>tracking_active := True\<rparr>)
     = (Success (JInt 7) (status ''already_running''), (new_tracker 1000)\<lparr>tracking_active := True\<rparr>) \<and>
   tracking_area no_rounding
      (JObj [(''latitude'', JInt 35), (''longitude'', JInt (- 80)), (''radius'', JInt 2),
             (''interval'', JInt 30)])
     = Inr ((JInt 33, JInt 37, JInt (- 82), JInt (- 78)), JInt 30) \<and>
   call_tool no_rounding no_query (start_request incomplete_args) (JInt 7) (new_tracker 1000)
     = (Error (JInt 7) (Exception_text KeyError), new_tracker 1000) \<and>
   call_tool no_rounding no_query stop_request (JInt 8) (new_tracker 1000)
     = (Success (JInt 8) (status ''not_running''), new_tracker 1000) \<and>
   fst (call_tool no_rounding no_query stop_request (JInt 9)
          (snd (call_tool no_rounding no_query stop_request (JInt 8)
                  ((new_tracker 1000)\<lparr>tracking_active := True\<rparr>))))
     = Success (JInt 9) (status ''not_running'')"
proof -
  let ?on = "(new_tracker 1000)\<lparr>tracking_active := True\<rparr>"
  let ?ints = "JObj [(''latitude'', JInt 35), (''longitude'', JInt (- 80)), (''radius'', JInt 2),
             (''interval'', JInt 30)]"
  have ta: "tracking_area no_rounding sample_args
     = Inr ((JReal 33, JReal 37, JReal (- 82), JReal (- 78)), JInt 30)"
    by (simp add: tracking_area_def and_then_def sample_args_def py_sub_def py_add_def
        float_op_def f_sub_def no_rounding_def)
  have on: "tracking_active ?on" "\<not> tracking_active (new_tracker 1000)"
    by (simp_all add: new_tracker_def)
  have a: "call_tool no_rounding no_query (start_request sample_args) (JInt 7) ?on
     = (Success (JInt 7) (status ''already_running''), ?on)"
    using lifecycle_misuse_is_reported [where s = ?on and rnd = no_rounding and args = sample_args
        and query = no_query and rid = "JInt 7"
        and area = "(JReal 33, JReal 37, JReal (- 82), JReal (- 78))" and interval = "JInt 30"]
      on(1) ta
    by blast
  have b: "tracking_area no_rounding ?ints
     = Inr ((JInt 33, JInt 37, JInt (- 82), JInt (- 78)), JInt 30)"
    using lifecycle_misuse_is_reported [where rnd = no_rounding and args = ?ints
        and lat = "JInt 35" and lon = "JInt (- 80)" and radius = "JInt 2" and iv = "JInt 30"
        and la = 35 and lo = "- 80" and r = 2]
    by simp
  have c: "call_tool no_rounding no_query (start_request incomplete_args) (JInt 7) (new_tracker 1000)
     = (Error (JInt 7) (Exception_text KeyError), new_tracker 1000)"
    using lifecycle_misuse_is_reported [where s = "new_tracker 1000" and rnd = no_rounding
        and args = incomplete_args and query = no_query and rid = "JInt 7" and e = KeyError]
      incomplete_args_raise[of no_rounding]
    by blast
  have d: "call_tool no_rounding no_query stop_request (JInt 8) (new_tracker 1000)
     = (Success (JInt 8) (status ''not_running''), new_tracker 1000)"
    using lifecycle_misuse_is_reported [where s = "new_tracker 1000" and rnd = no_rounding
        and query = no_query and rid = "JInt 8"] on(2)
    by blast
  have e: "fst (call_tool no_rounding no_query stop_request (JInt 9)
          (snd (call_tool no_rounding no_query stop_request (JInt 8) ?on)))
     = Success (JInt 9) (status ''not_running'')"
    using lifecycle_misuse_is_reported [where s = ?on and rnd = no_rounding
        and query = no_query and rid = "JInt 8" and rid' = "JInt 9"]
    by blast
  show ?thesis using ta a b c d e by simp
qed

text \<open>
  Claim C10, as stated, fails in one respect: after the capacity break not every start
  request reports \<open>already_running\<close>. One without \<^verbatim>\<open>interval\<close> gets an error envelope
  for the \<^verbatim>\<open>KeyError\<close>, because the arguments are read before the flag.
\<close>

theorem start_without_interval_after_break:
  "start_tracking no_rounding default_config failing_upstream None JNull full_tracker
     = Some (Inr (), full_tracker\<lparr>tracking_active := True\<rparr>) \<and>
   call_tool no_rounding no_query (start_request incomplete_args) (JInt 1)
      (full_tracker\<lparr>tracking_active := True\<rparr>)
     = (Error (JInt 1) (Exception_text KeyError), full_tracker\<lparr>tracking_active := True\<rparr>)"
proof -
  have "MAX_TRACKED_FLIGHTS default_config \<le> int (length (tracked_flights full_tracker))"
    by (simp add: full_tracker_def crowd_cache_def default_config_def)
  then have "start_tracking no_rounding default_config failing_upstream None JNull full_tracker
     = Some (Inr (), full_tracker\<lparr>tracking_active := True\<rparr>)"
    by (rule start_tracking_at_capacity)
  then show ?thesis
    by (simp add: call_tool_start start_raises incomplete_args_raise)
qed

text \<open>
  Claim C10, amended. When \<open>start_tracking\<close> finds the cache at capacity, the coroutine
  returns and the active flag stays set. From then on a start request whose arguments are
  read and whose square is computed without an exception reports \<open>already_running\<close> and
  starts nothing, however often it is repeated (the state is unchanged), and one for which
  they raise gets an error envelope. A stop request reports \<open>stopped\<close> and clears the
  flag, though no loop is running; only after it does such a start request report
  \<open>started\<close> and add a task to the event loop.
\<close>

theorem capacity_break_leaves_flag_set:
  assumes "MAX_TRACKED_FLIGHTS cfg \<le> int (length (tracked_flights s))"
  shows "start_tracking rnd cfg up area interval s = Some (Inr (), s\<lparr>tracking_active := True\<rparr>) \<and>
         (tracking_area rnd args = Inr ((min_lat, max_lat, min_lon, max_lon), iv) \<longrightarrow>
            call_tool rnd query (start_request args) rid (s\<lparr>tracking_active := True\<rparr>)
              = (Success rid (status ''already_running''), s\<lparr>tracking_active := True\<rparr>)) \<and>
         (tracking_area rnd args = Inl e \<longrightarrow>
            call_tool rnd query (start_request args) rid (s\<lparr>tracking_active := True\<rparr>)
              = (Error rid (Exception_text e), s\<lparr>tracking_active := True\<rparr>)) \<and>
         call_tool rnd query stop_request rid (s\<lparr>tracking_active := True\<rparr>)
           = (Success rid (status ''stopped''),
              tracker_stop_tracking (s\<lparr>tracking_active := True\<rparr>)) \<and>
         \<not> tracking_active (tracker_stop_tracking (s\<lparr>tracking_active := True\<rparr>)) \<and>
         (tracking_area rnd args = Inr ((min_lat, max_lat, min_lon, max_lon), iv) \<longrightarrow>
            call_tool rnd query (start_request args) rid
                (tracker_stop_tracking (s\<lparr>tracking_active := True\<rparr>))
              = (Success rid
                   (JObj [(''status'', JStr ''started''),
                          (''area'', JObj [(''min_lat'', min_lat), (''max_lat'', max_lat),
                                           (''min_lon'', min_lon), (''max_lon'', max_lon)])]),
                 (tracker_stop_tracking (s\<lparr>tracking_active := True\<rparr>))
                   \<lparr>loop_tasks :=
                      loop_tasks (tracker_stop_tracking (s\<lparr>tracking_active := True\<rparr>)) @
                        [\<lparr>task_area = (min_lat, max_lat, min_lon, max_lon),
                          task_interval = iv, cancel_requested = False\<rparr>],
                    tracking_task :=
                      Some (length (loop_tasks (tracker_stop_tracking (s\<lparr>tracking_active := True\<rparr>))))\<rparr>))"
proof -
  let ?s1 = "s\<lparr>tracking_active := True\<rparr>"
  let ?s2 = "tracker_stop_tracking ?s1"
  have a: "start_tracking rnd cfg up area interval s = Some (Inr (), ?s1)"
    using assms by (rule start_tracking_at_capacity)
  have b: "tracking_area rnd args = Inr ((min_lat, max_lat, min_lon, max_lon), iv) \<longrightarrow>
      call_tool rnd query (start_request args) rid ?s1 = (Success rid (status ''already_running''), ?s1)"
    by (simp add: call_tool_start start_while_active)
  have b': "tracking_area rnd args = Inl e \<longrightarrow>
      call_tool rnd query (start_request args) rid ?s1 = (Error rid (Exception_text e), ?s1)"
    by (simp add: call_tool_start start_raises)
  have c: "call_tool rnd query stop_request rid ?s1 = (Success rid (status ''stopped''), ?s2)"
    by (simp add: call_tool_stop stop_tracking_def)
  have d: "\<not> tracking_active ?s2"
    by (simp add: tracker_stop_tracking_def Let_def split: option.splits)
  have e: "tracking_area rnd args = Inr ((min_lat, max_lat, min_lon, max_lon), iv) \<longrightarrow>
      call_tool rnd query (start_request args) rid ?s2
        = (Success rid
             (JObj [(''status'', JStr ''started''),
                    (''area'', JObj [(''min_lat'', min_lat), (''max_lat'', max_lat),
                                     (''min_lon'', min_lon), (''max_lon'', max_lon)])]),
           ?s2\<lparr>loop_tasks := loop_tasks ?s2 @
                   [\<lparr>task_area = (min_lat, max_lat, min_lon, max_lon),
                     task_interval = iv, cancel_requested = False\<rparr>],
                tracking_task := Some (length (loop_tasks ?s2))\<rparr>)"
    using start_while_inactive[OF d, of rnd args min_lat max_lat min_lon max_lon iv]
    by (simp add: call_tool_start)
  show ?thesis
    by (rule conjI[OF a conjI[OF b conjI[OF b' conjI[OF c conjI[OF d e]]]]])
qed

theorem capacity_break_leaves_flag_set_witness:
  "start_tracking no_rounding default_config failing_upstream None JNull full_tracker
     = Some (Inr (), full_tracker\<lparr>tracking_active := True\<rparr>) \<and>
   call_tool no_rounding no_query (start_request sample_args) (JInt 1)
      (full_tracker\<lparr>tracking_active := True\<rparr>)
     = (Success (JInt 1) (status ''already_running''), full_tracker\<lparr>tracking_active := True\<rparr>) \<and>
   fst (call_tool no_rounding no_query stop_request (JInt 1) (full_tracker\<lparr>tracking_active := True\<rparr>))
     = Success (JInt 1) (status ''stopped'') \<and>
   loop_tasks (snd (call_tool no_rounding no_query (start_request sample_args) (JInt 1)
      (tracker_stop_tracking (full_tracker\<lparr>tracking_active := True\<rparr>))))
     = [\<lparr>task_area = (JReal 33, JReal 37, JReal (- 82), JReal (- 78)),
         task_interval = JInt 30, cancel_requested = False\<rparr>]"
proof -
  have h: "MAX_TRACKED_FLIGHTS default_config \<le> int (length (tracked_flights full_tracker))"
    by (simp add: full_tracker_def crowd_cache_def default_config_def)
  have ta: "tracking_area no_rounding sample_args
     = Inr ((JReal 33, JReal 37, JReal (- 82), JReal (- 78)), JInt 30)"
    by (simp add: tracking_area_def and_then_def sample_args_def py_sub_def py_add_def
        float_op_def f_sub_def no_rounding_def)
  have lt: "loop_tasks (tracker_stop_tracking (full_tracker\<lparr>tracking_active := True\<rparr>)) = []"
    by (simp add: tracker_stop_tracking_def full_tracker_def new_tracker_def Let_def)
  show ?thesis
    using capacity_break_leaves_flag_set [OF h, where args = sample_args and query = no_query
        and rid = "JInt 1" and up = failing_upstream and area = None and interval = JNull
        and rnd = no_rounding and min_lat = "JReal 33" and max_lat = "JReal 37"
        and min_lon = "JReal (- 82)" and max_lon = "JReal (- 78)" and iv = "JInt 30"] ta
    by (simp add: lt)
qed
subsection \<open>Pacing when no attempt fails in transport\<close>

lemma dispatch_times_append:
  "dispatch_times (xs @ ys) = dispatch_times xs @ dispatch_times ys"
  by (induction xs rule: dispatch_times.induct) auto

lemma spaced_snoc:
  "spaced gap (ts @ [t]) \<longleftrightarrow> spaced gap ts \<and> (ts \<noteq> [] \<longrightarrow> gap \<le> t - last ts)"
  by (induction gap ts rule: spaced.induct) auto

lemma attempts_paced:
  assumes "paced cfg s" and "last_request_time s + of_int (MIN_REQUEST_INTERVAL cfg) \<le> clock s"
    and "0 \<le> MIN_REQUEST_INTERVAL cfg" and "\<forall>a \<in> set as. 0 \<le> a"
    and "\<forall>n. 0 \<le> fst (up n)"
    and "\<forall>i < length as. snd (up (n_sent s + i)) \<noteq> RequestException"
  shows "paced cfg (snd (attempts cfg up ep ps as s))"
  using assms
proof (induction as arbitrary: s)
  case Nil
  then show ?case by simp
next
  case (Cons a as)
  let ?mi = "of_int (MIN_REQUEST_INTERVAL cfg) :: real"
  obtain lat r where up0: "up (n_sent s) = (lat, r)" by (cases "up (n_sent s)")
  have lat: "0 \<le> lat" using Cons.prems(5)[rule_format, of "n_sent s"] by (simp add: up0)
  from Cons.prems(6) have "snd (up (n_sent s)) \<noteq> RequestException" by force
  then obtain code body where r: "r = Response code body"
    by (cases r) (auto simp: up0)
  define s2 where "s2 = s\<lparr>clock := clock s + lat, n_sent := Suc (n_sent s),
      trace := trace s @ [(clock s, Request ep ps)], last_request_time := clock s + lat\<rparr>"
  have p2: "paced cfg s2"
    using Cons.prems(1,2,3) lat
    by (auto simp: paced_def s2_def dispatch_times_append spaced_snoc)
  define d where "d = (of_int (MIN_REQUEST_INTERVAL cfg * (a + 1)) :: real)"
  have "0 \<le> a" using Cons.prems(4) by simp
  then have "?mi * 1 \<le> ?mi * (of_int a + 1)"
    using Cons.prems(3) by (intro mult_left_mono) simp_all
  then have dge: "?mi \<le> d" by (simp add: d_def)
  then have dpos: "0 \<le> d" using Cons.prems(3) by simp
  define s3 where "s3 = s2\<lparr>clock := clock s2 + d, trace := trace s2 @ [(clock s2, Sleep d)]\<rparr>"
  have p3: "paced cfg s3"
    using p2 dpos by (auto simp: paced_def s3_def dispatch_times_append)
  have ready3: "last_request_time s3 + ?mi \<le> clock s3"
    using dge by (simp add: s3_def s2_def)
  have rest: "\<forall>i<length as. snd (up (n_sent s3 + i)) \<noteq> RequestException"
    using Cons.prems(6) by (auto simp: s3_def s2_def)
  have ih: "paced cfg (snd (attempts cfg up ep ps as s3))"
    using Cons.IH[OF p3 ready3 Cons.prems(3) _ Cons.prems(5) rest] Cons.prems(4) by simp
  have step: "attempts cfg up ep ps (a # as) s =
      (if code = 200 then (Inr body, s2)
       else if code = 429 then attempts cfg up ep ps as s3 else (Inr JNull, s2))"
    using dpos by (simp add: session_get_def up0 r time_sleep_def s2_def s3_def d_def Let_def)
  show ?case unfolding step using p2 ih by simp
qed

text \<open>
  The pacing invariant is kept by every call in which no attempt raises a
  \<^verbatim>\<open>RequestException\<close> (responses of any status, 429 included), for a non-negative
  interval and requests that take no negative time. A fresh client satisfies it, so the
  requests of any sequence of such calls are at least \<open>MIN_REQUEST_INTERVAL\<close> apart: the
  pacing is lost only on the path where \<^verbatim>\<open>session.get\<close> raises.
\<close>

theorem pacing_without_transport_failure:
  assumes "paced cfg s" and "0 \<le> MIN_REQUEST_INTERVAL cfg"
    and "\<forall>n. 0 \<le> fst (up n)"
    and "\<forall>i < nat (MAX_RETRIES cfg). snd (up (n_sent s + i)) \<noteq> RequestException"
  shows "paced cfg (snd (make_request cfg up ep ps s))"
proof -
  let ?mi = "of_int (MIN_REQUEST_INTERVAL cfg) :: real"
  define s1 where "s1 = (if clock s - last_request_time s < ?mi
     then s\<lparr>clock := clock s + (?mi - (clock s - last_request_time s)),
            trace := trace s @ [(clock s, Sleep (?mi - (clock s - last_request_time s)))]\<rparr>
     else s)"
  have mr: "make_request cfg up ep ps s = attempts cfg up ep ps (py_range (MAX_RETRIES cfg)) s1"
    by (simp add: make_request_def time_sleep_def s1_def Let_def)
  have p1: "paced cfg s1"
    using assms(1) by (auto simp: paced_def s1_def dispatch_times_append)
  have ready: "last_request_time s1 + ?mi \<le> clock s1" by (simp add: s1_def)
  have n1: "n_sent s1 = n_sent s" by (simp add: s1_def)
  have "\<forall>i < length (py_range (MAX_RETRIES cfg)). snd (up (n_sent s1 + i)) \<noteq> RequestException"
    using assms(4) by (simp add: py_range_def n1)
  moreover have "\<forall>a \<in> set (py_range (MAX_RETRIES cfg)). 0 \<le> a"
    by (auto simp: py_range_def)
  ultimately show ?thesis
    unfolding mr using attempts_paced[OF p1 ready assms(2) _ assms(3)] by blast
qed

theorem pacing_without_transport_failure_witness:
  "paced default_config (new_client 1000) \<and>
   paced default_config (snd (make_request default_config (serving JNull) ''states/all'' []
      (snd (make_request default_config (serving JNull) ''states/all'' [] (new_client 1000))))) \<and>
   dispatch_times (trace (snd (make_request default_config (serving JNull) ''states/all'' []
      (snd (make_request default_config (serving JNull) ''states/all'' [] (new_client 1000))))))
     = [1000, 1011]"
proof -
  have p0: "paced default_config (new_client 1000)"
    by (simp add: paced_def new_client_def)
  have mi: "0 \<le> MIN_REQUEST_INTERVAL default_config" by (simp add: default_config_def)
  have lat: "\<forall>n. 0 \<le> fst (serving JNull n)" by (simp add: serving_def)
  have ok: "\<And>s. \<forall>i < nat (MAX_RETRIES default_config).
      snd (serving JNull (n_sent s + i)) \<noteq> RequestException"
    by (simp add: serving_def)
  have p1: "paced default_config
      (snd (make_request default_config (serving JNull) ''states/all'' [] (new_client 1000)))"
    using p0 mi lat ok by (rule pacing_without_transport_failure)
  have p2: "paced default_config (snd (make_request default_config (serving JNull) ''states/all'' []
      (snd (make_request default_config (serving JNull) ''states/all'' [] (new_client 1000)))))"
    using p1 mi lat ok by (rule pacing_without_transport_failure)
  have "py_range (MAX_RETRIES default_config) = [0, 1, 2]"
    by (simp add: py_range_def default_config_def upt_rec)
  then have "dispatch_times (trace (snd (make_request default_config (serving JNull) ''states/all'' []
      (snd (make_request default_config (serving JNull) ''states/all'' [] (new_client 1000))))))
     = [1000, 1011]"
    by (simp add: make_request_def serving_def new_client_def session_get_def time_sleep_def
        Let_def default_config_def)
  with p0 p2 show ?thesis by simp
qed

text \<open>
  The outcome of \<open>start_tracking\<close> in every state: at capacity the coroutine returns with
  the cache untouched; below capacity the first iteration ends with \<^verbatim>\<open>NameError\<close>
  leaving the coroutine. The loop never runs a second iteration.
\<close>

theorem start_tracking_outcome:
  "start_tracking rnd cfg up area interval s =
     (if MAX_TRACKED_FLIGHTS cfg \<le> int (length (tracked_flights s))
      then Some (Inr (), s\<lparr>tracking_active := True\<rparr>)
      else Some (Inl NameError,
             snd (try_block rnd cfg up area
                    (if truthy interval then interval else JInt (DEFAULT_REFRESH_INTERVAL cfg))
                    (s\<lparr>tracking_active := True\<rparr>))))"
  by (simp add: start_tracking_def tracking_loop_once)

end
